theory Spec2Isabelle
  imports Complex_Main
begin

section \<open>Engine objects, Python values and the module state\<close>

text \<open>
  The module \<open>framework/basicstimuli.py\<close> wraps constructors of a rendering engine.
  An engine object is opaque; what \<open>_destroy_object\<close> asks of it is whether it has a
  \<open>destroy\<close> attribute and whether it has a \<open>stop\<close> attribute, and calling either
  may raise inside the engine. An object is therefore an identity together with these two
  attributes. Python compares such objects by identity, HOL by the three components; the
  engine never hands out one identity with two different attribute sets.
\<close>

datatype attr = Missing | Callable | Raising

datatype pyobj = PyObj (oid: nat) (destroy_attr: attr) (stop_attr: attr)

datatype exn = TypeError | ValueError | IndexError | ZeroDivisionError | EngineError

text \<open>
  The \<open>duration\<close> argument of the visual factories: a number of seconds, the name of
  an event, or a pair \<open>[number, event]\<close> (a list or a tuple).
\<close>

datatype duration = Fixed real | Event string | Hybrid real string

text \<open>
  A position, scale or angle argument: \<open>None\<close>, a single number, a list or a tuple
  of numbers.
\<close>

datatype pyval = PNone | PNum real | PList "real list" | PTuple "real list"

text \<open>
  The first argument of \<open>_destroy_object\<close> is one object (or \<open>None\<close>), a list or a
  tuple whose elements are objects or \<open>None\<close>; its second argument is a marker id, a
  number in every call of this module, and possibly a string since \<open>marker\<close> accepts
  strings too. A list is not copied by \<open>_destroy_object\<close>, so it matters whether the
  caller hands over a list of its own (\<open>ObjList\<close>) or the tracked list
  \<open>self._to_destroy\<close> itself (\<open>TrackedList\<close>), which the loop shortens while it runs.
\<close>

datatype destroy_arg =
    Single "pyobj option"
  | ObjList "pyobj option list"
  | ObjTuple "pyobj option list"
  | TrackedList

datatype marker_id = IdInt int | IdStr string

text \<open>
  What can be observed of a run, in the order it happens: engine objects created, markers
  sent, the two blocking primitives, \<open>destroy()\<close> and \<open>stop()\<close> calls that went
  through, and warnings. Calls that only configure an engine object (transparency, volume,
  play rate, \<open>play()\<close>) are not recorded.
\<close>

datatype event =
    Create pyobj
  | Marker int
  | Sleep real
  | WaitFor string
  | Destroy pyobj
  | Stop pyobj
  | Warn string

text \<open>A task handed to the engine's \<open>taskMgr.doMethodLater\<close>: the delay and the \<open>extraArgs\<close>.\<close>

datatype task = Task (delay: real) (task_obj: destroy_arg) (task_id: marker_id)

text \<open>What a factory returns: \<open>None\<close>, one engine object, or a \<open>destroy_helper\<close>.\<close>

datatype retval = RNone | RObj pyobj | RHelper "pyobj list"

datatype outcome = Returned retval | Raised exn

text \<open>
  The state. The first four fields are the instance fields set by \<open>__init__\<close>
  (\<open>_base\<close>, \<open>audio3d\<close>, \<open>implicit_markers\<close>, \<open>_to_destroy\<close>); the last three
  belong to the engine and the outside world: the next fresh object identity, the
  observable events so far, and the tasks scheduled with the task manager.
\<close>

record state =
  base :: nat
  audio3d :: "pyobj option"
  implicit_markers :: bool
  to_destroy :: "pyobj list"
  next_oid :: nat
  trace :: "event list"
  tasks :: "task list"

definition init :: "nat \<Rightarrow> nat \<Rightarrow> state" where
  "init b n =
     \<lparr>base = b, audio3d = None, implicit_markers = False, to_destroy = [],
      next_oid = n, trace = [], tasks = []\<rparr>"

section \<open>Primitives supplied by the engine and the base class\<close>

definition emit :: "event \<Rightarrow> state \<Rightarrow> state" where
  "emit e s = s\<lparr>trace := trace s @ [e]\<rparr>"

text \<open>
  Modelled from the spec: \<open>eventmarkers.send_marker\<close> is not among the sources; a marker is
  "a timestamped synchronization code sent to an external recording system", recorded
  here in the trace.
\<close>

definition marker :: "int \<Rightarrow> state \<Rightarrow> state" where
  "marker markercode s = emit (Marker markercode) s"

text \<open>
  Modelled from the spec: \<open>sleep\<close> and \<open>waitfor\<close> come from the base class
  \<open>LatentModule\<close>, which is not among the sources ("blocking is a cooperative sleep/wait
  primitive supplied by an external base class"). A wait that completes normally is
  recorded in the trace; cancellation during a wait is not modelled.
\<close>

definition sleep :: "real \<Rightarrow> state \<Rightarrow> state" where
  "sleep d s = emit (Sleep d) s"

definition waitfor :: "string \<Rightarrow> state \<Rightarrow> state" where
  "waitfor ev s = emit (WaitFor ev) s"

text \<open>
  An engine constructor returns an object with a fresh identity. \<open>OnscreenText\<close> and
  \<open>OnscreenImage\<close> objects have \<open>destroy\<close>; sounds and movie textures have \<open>stop\<close>
  and no \<open>destroy\<close>.
\<close>

definition new_object :: "attr \<Rightarrow> attr \<Rightarrow> state \<Rightarrow> pyobj \<times> state" where
  "new_object d st s =
     (let obj = PyObj (next_oid s) d st
      in (obj, emit (Create obj) (s\<lparr>next_oid := Suc (next_oid s)\<rparr>)))"

definition OnscreenText :: "state \<Rightarrow> pyobj \<times> state" where
  "OnscreenText s = new_object Callable Missing s"

definition OnscreenImage :: "state \<Rightarrow> pyobj \<times> state" where
  "OnscreenImage s = new_object Callable Missing s"

definition loadSfx :: "state \<Rightarrow> pyobj \<times> state" where
  "loadSfx s = new_object Missing Callable s"

definition loadTexture :: "state \<Rightarrow> pyobj \<times> state" where
  "loadTexture s = new_object Missing Callable s"

definition doMethodLater :: "real \<Rightarrow> destroy_arg \<Rightarrow> marker_id \<Rightarrow> state \<Rightarrow> state" where
  "doMethodLater d obj mid s = s\<lparr>tasks := tasks s @ [Task d obj mid]\<rparr>"

text \<open>\<open>self._to_destroy.append(obj)\<close>\<close>

definition track :: "pyobj \<Rightarrow> state \<Rightarrow> state" where
  "track obj s = s\<lparr>to_destroy := to_destroy s @ [obj]\<rparr>"

section \<open>The destruction helper\<close>

text \<open>
  The list object the loop iterates: a list of its own, or the tracked list of the
  state. \<open>elements\<close> reads it, \<open>list_remove\<close> is \<open>obj.remove(ele)\<close> on it (the element
  comes from the list, so it is found).
\<close>

datatype target = Own "pyobj option list" | Tracked

definition elements :: "target \<Rightarrow> state \<Rightarrow> pyobj option list" where
  "elements obj s = (case obj of Own xs \<Rightarrow> xs | Tracked \<Rightarrow> map Some (to_destroy s))"

definition list_remove :: "pyobj \<Rightarrow> target \<Rightarrow> state \<Rightarrow> target \<times> state" where
  "list_remove ele obj s =
     (case obj of
        Own xs \<Rightarrow> (Own (remove1 (Some ele) xs), s)
      | Tracked \<Rightarrow> (Tracked, s\<lparr>to_destroy := remove1 ele (to_destroy s)\<rparr>))"

text \<open>
  Lines 502-503: a tuple becomes a new list, a list stays the list it is, anything else
  becomes a one-element list.
\<close>

fun as_list :: "destroy_arg \<Rightarrow> target" where
  "as_list (ObjTuple xs) = Own xs"
| "as_list (ObjList xs) = Own xs"
| "as_list TrackedList = Tracked"
| "as_list (Single x) = Own [x]"

text \<open>
  The body of the \<open>for\<close> loop for one element that is not \<open>None\<close> (lines 511-518).
  The result is the exception raised, if any, the list being iterated (the third branch
  removes the element from it) and the state. Whatever happened before an exception stays
  done. \<open>list.remove\<close> deletes the first equal element and raises \<open>ValueError\<close> when
  there is none.
\<close>

definition destroy_element ::
    "pyobj \<Rightarrow> target \<Rightarrow> state \<Rightarrow> exn option \<times> target \<times> state" where
  "destroy_element ele obj s =
     (case
        (if destroy_attr ele \<noteq> Missing then
           (if destroy_attr ele = Raising then (Some EngineError, obj, s)
            else (None, obj, emit (Destroy ele) s))
         else if stop_attr ele \<noteq> Missing then
           (if stop_attr ele = Raising then (Some EngineError, obj, s)
            else (None, obj, emit (Stop ele) s))
         else (None, list_remove ele obj s))
      of
        (Some e, obj1, s1) \<Rightarrow> (Some e, obj1, s1)
      | (None, obj1, s1) \<Rightarrow>
          (if ele \<in> set (to_destroy s1)
           then (None, obj1, s1\<lparr>to_destroy := remove1 ele (to_destroy s1)\<rparr>)
           else (Some ValueError, obj1, s1)))"

text \<open>
  The \<open>for ele in obj\<close> loop (lines 509-518). Python iterates a list by position and
  looks at the length of the list before every step, so removing an element from the list
  during the loop shifts the elements still to come.
\<close>

function destroy_loop :: "nat \<Rightarrow> target \<Rightarrow> state \<Rightarrow> exn option \<times> state" where
  "destroy_loop i obj s =
     (if length (elements obj s) \<le> i then (None, s)
      else
        (case elements obj s ! i of
           None \<Rightarrow> destroy_loop (Suc i) obj s
         | Some ele \<Rightarrow>
             (case destroy_element ele obj s of
                (Some e, obj1, s1) \<Rightarrow> (Some e, s1)
              | (None, obj1, s1) \<Rightarrow> destroy_loop (Suc i) obj1 s1)))"
  by pat_completeness auto
termination
  apply (relation "measure (\<lambda>(i, obj, s). Suc (length (elements obj s)) - i)")
    apply simp
   apply simp
  apply (auto simp: destroy_element_def list_remove_def elements_def emit_def length_remove1
      split: if_splits target.splits)
  done

declare destroy_loop.simps [simp del]

text \<open>
  Comparing the id with zero (line 506): a string against a number raises \<open>TypeError\<close>.
\<close>

definition id_gt_zero :: "marker_id \<Rightarrow> exn + bool" where
  "id_gt_zero mid = (case mid of IdInt n \<Rightarrow> Inr (0 < n) | IdStr _ \<Rightarrow> Inl TypeError)"

text \<open>The body of the \<open>try\<close> block (lines 506-518).\<close>

definition destroy_try :: "target \<Rightarrow> marker_id \<Rightarrow> state \<Rightarrow> exn option \<times> state" where
  "destroy_try obj mid s =
     (case id_gt_zero mid of
        Inl e \<Rightarrow> (Some e, s)
      | Inr positive \<Rightarrow>
          destroy_loop 0 obj
            (if positive \<and> implicit_markers s
             then (case mid of IdInt n \<Rightarrow> marker n s | IdStr _ \<Rightarrow> s)
             else s))"

text \<open>
  \<open>_destroy_object\<close> (lines 500-520): the bare \<open>except\<close> catches whatever the body
  raised and issues a warning.
\<close>

definition destroy_object :: "destroy_arg \<Rightarrow> marker_id \<Rightarrow> state \<Rightarrow> outcome \<times> state" where
  "destroy_object obj mid s =
     (case destroy_try (as_list obj) mid s of
        (None, s1) \<Rightarrow> (Returned RNone, s1)
      | (Some e, s1) \<Rightarrow> (Returned RNone, emit (Warn ''Error in destryoing objects'') s1))"

text \<open>Running a scheduled task is calling \<open>_destroy_object\<close> on its \<open>extraArgs\<close>.\<close>

definition run_task :: "task \<Rightarrow> state \<Rightarrow> outcome \<times> state" where
  "run_task t s = destroy_object (task_obj t) (task_id t) s"

section \<open>The visual stimulus factories\<close>

text \<open>
  Each factory is written out as the source has it. The arguments that only parametrise
  the engine constructor (text, colours, fonts, the rectangle bounds, the parent node) are
  left out: they are taken at values the constructor accepts. A blocking call returns
  \<open>None\<close> after the call of \<open>_destroy_object\<close>.
\<close>

definition discard :: "outcome \<times> state \<Rightarrow> outcome \<times> state" where
  "discard r = (case r of (Returned v, s) \<Rightarrow> (Returned RNone, s) | (Raised e, s) \<Rightarrow> (Raised e, s))"

text \<open>\<open>duration == 0\<close>: a string or a list never equals a number.\<close>

definition is_zero :: "duration \<Rightarrow> bool" where
  "is_zero duration = (case duration of Fixed d \<Rightarrow> d = 0 | _ \<Rightarrow> False)"

text \<open>
  \<open>write\<close> (lines 45-98), named \<open>write_text\<close> here. In the non-blocking branch \<open>duration > 0\<close> compares a string
  or a list with a number, which raises \<open>TypeError\<close>.
\<close>

definition write_text :: "duration \<Rightarrow> bool \<Rightarrow> state \<Rightarrow> outcome \<times> state" where
  "write_text duration block s =
     (let block1 = (if is_zero duration then False else block);
          (obj, s1) = OnscreenText s;
          s2 = track obj s1;
          s3 = (if implicit_markers s2 then marker 254 s2 else s2)
      in if block1 then
           discard (destroy_object (Single (Some obj)) (IdInt 255)
             (case duration of
                Hybrid d ev \<Rightarrow> waitfor ev (sleep d s3)
              | Event ev \<Rightarrow> waitfor ev s3
              | Fixed d \<Rightarrow> sleep d s3))
         else
           (case duration of
              Fixed d \<Rightarrow>
                (Returned (RObj obj),
                 if 0 < d then doMethodLater d (Single (Some obj)) (IdInt 255) s3 else s3)
            | _ \<Rightarrow> (Raised TypeError, s3)))"

text \<open>\<open>crosshair\<close> (lines 100-135): no test of \<open>duration == 0\<close>.\<close>

definition crosshair :: "duration \<Rightarrow> bool \<Rightarrow> state \<Rightarrow> outcome \<times> state" where
  "crosshair duration block s =
     (let (obj1, s1) = OnscreenImage s;
          s2 = track obj1 s1;
          (obj2, s3) = OnscreenImage s2;
          s4 = track obj2 s3;
          s5 = (if implicit_markers s4 then marker 252 s4 else s4)
      in if block then
           discard (destroy_object (ObjList [Some obj1, Some obj2]) (IdInt 253)
             (case duration of
                Hybrid d ev \<Rightarrow> waitfor ev (sleep d s5)
              | Event ev \<Rightarrow> waitfor ev s5
              | Fixed d \<Rightarrow> sleep d s5))
         else
           (case duration of
              Fixed d \<Rightarrow>
                (Returned (RHelper [obj1, obj2]),
                 if 0 < d
                 then doMethodLater d (ObjList [Some obj1, Some obj2]) (IdInt 253) s5
                 else s5)
            | _ \<Rightarrow> (Raised TypeError, s5)))"

text \<open>\<open>rectangle\<close> (lines 137-172).\<close>

definition rectangle :: "duration \<Rightarrow> bool \<Rightarrow> state \<Rightarrow> outcome \<times> state" where
  "rectangle duration block s =
     (let block1 = (if is_zero duration then False else block);
          (obj, s1) = OnscreenImage s;
          s2 = track obj s1;
          s3 = (if implicit_markers s2 then marker 250 s2 else s2)
      in if block1 then
           discard (destroy_object (Single (Some obj)) (IdInt 251)
             (case duration of
                Hybrid d ev \<Rightarrow> waitfor ev (sleep d s3)
              | Event ev \<Rightarrow> waitfor ev s3
              | Fixed d \<Rightarrow> sleep d s3))
         else
           (case duration of
              Fixed d \<Rightarrow>
                (Returned (RObj obj),
                 if 0 < d then doMethodLater d (Single (Some obj)) (IdInt 251) s3 else s3)
            | _ \<Rightarrow> (Raised TypeError, s3)))"

text \<open>\<open>frame\<close> (lines 174-217): four images, no test of \<open>duration == 0\<close>.\<close>

definition frame :: "duration \<Rightarrow> bool \<Rightarrow> state \<Rightarrow> outcome \<times> state" where
  "frame duration block s =
     (let (L, s1) = OnscreenImage s;
          s2 = track L s1;
          (R, s3) = OnscreenImage s2;
          s4 = track R s3;
          (T, s5) = OnscreenImage s4;
          s6 = track T s5;
          (B, s7) = OnscreenImage s6;
          s8 = track B s7;
          s9 = (if implicit_markers s8 then marker 242 s8 else s8)
      in if block then
           discard (destroy_object (ObjList [Some L, Some R, Some T, Some B]) (IdInt 243)
             (case duration of
                Hybrid d ev \<Rightarrow> waitfor ev (sleep d s9)
              | Event ev \<Rightarrow> waitfor ev s9
              | Fixed d \<Rightarrow> sleep d s9))
         else
           (case duration of
              Fixed d \<Rightarrow>
                (Returned (RHelper [L, R, T, B]),
                 if 0 < d
                 then doMethodLater d (ObjList [Some L, Some R, Some T, Some B]) (IdInt 243) s9
                 else s9)
            | _ \<Rightarrow> (Raised TypeError, s9)))"

text \<open>
  The geometry arguments of \<open>picture\<close> (lines 235-240). \<open>type(v) not in (int, float)\<close>
  and \<open>len(v)\<close>; \<open>len\<close> of a number raises \<open>TypeError\<close>. A one-element \<open>hpr\<close> is
  wrapped whole into \<open>(0, 0, hpr)\<close>.
\<close>

definition is_number :: "pyval \<Rightarrow> bool" where
  "is_number v = (case v of PNum x \<Rightarrow> True | _ \<Rightarrow> False)"

definition py_len :: "pyval \<Rightarrow> exn + nat" where
  "py_len v =
     (case v of PList xs \<Rightarrow> Inr (length xs) | PTuple xs \<Rightarrow> Inr (length xs) | _ \<Rightarrow> Inl TypeError)"

definition items :: "pyval \<Rightarrow> real list" where
  "items v = (case v of PList xs \<Rightarrow> xs | PTuple xs \<Rightarrow> xs | _ \<Rightarrow> [])"

datatype hpr_val = Plain pyval | Roll pyval

definition pair_to_triple :: "real \<Rightarrow> pyval \<Rightarrow> pyval" where
  "pair_to_triple mid v =
     (if v \<noteq> PNone \<and> \<not> is_number v \<and> py_len v = Inr 2
      then PTuple [items v ! 0, mid, items v ! 1] else v)"

definition picture_geometry ::
    "pyval \<Rightarrow> pyval \<Rightarrow> pyval \<Rightarrow> exn + (pyval \<times> hpr_val \<times> pyval)" where
  "picture_geometry pos hpr scale =
     (let pos1 = pair_to_triple 0 pos;
          scale1 = pair_to_triple 1 scale
      in if hpr \<noteq> PNone \<and> \<not> is_number scale1 then
           (case py_len hpr of
              Inl e \<Rightarrow> Inl e
            | Inr n \<Rightarrow> Inr (pos1, if n = 1 then Roll hpr else Plain hpr, scale1))
         else Inr (pos1, Plain hpr, scale1))"

text \<open>\<open>picture\<close> (lines 219-261).\<close>

definition picture ::
    "duration \<Rightarrow> bool \<Rightarrow> pyval \<Rightarrow> pyval \<Rightarrow> pyval \<Rightarrow> state \<Rightarrow> outcome \<times> state" where
  "picture duration block pos hpr scale s =
     (case picture_geometry pos hpr scale of
        Inl e \<Rightarrow> (Raised e, s)
      | Inr geometry \<Rightarrow>
          (let block1 = (if is_zero duration then False else block);
               (obj, s1) = OnscreenImage s;
               s2 = track obj s1;
               s3 = (if implicit_markers s2 then marker 248 s2 else s2)
           in if block1 then
                discard (destroy_object (Single (Some obj)) (IdInt 249)
                  (case duration of
                     Hybrid d ev \<Rightarrow> waitfor ev (sleep d s3)
                   | Event ev \<Rightarrow> waitfor ev s3
                   | Fixed d \<Rightarrow> sleep d s3))
              else
                (case duration of
                   Fixed d \<Rightarrow>
                     (Returned (RObj obj),
                      if 0 < d then doMethodLater d (Single (Some obj)) (IdInt 249) s3 else s3)
                 | _ \<Rightarrow> (Raised TypeError, s3))))"

section \<open>Sound and movie\<close>

text \<open>
  The \<open>Audio3DManager\<close> is an engine object of its own; it is no stimulus and its
  construction is not recorded in the trace.
\<close>

definition Audio3DManager :: "state \<Rightarrow> pyobj \<times> state" where
  "Audio3DManager s = (PyObj (next_oid s) Missing Missing, s\<lparr>next_oid := Suc (next_oid s)\<rparr>)"

text \<open>Lines 276-278: the 3D audio manager is made when first needed.\<close>

definition ensure_audio3d :: "bool \<Rightarrow> state \<Rightarrow> state" where
  "ensure_audio3d surround s =
     (if surround \<and> audio3d s = None
      then (let (m, s') = Audio3DManager s in s'\<lparr>audio3d := Some m\<rparr>)
      else s)"

text \<open>
  Lines 287-298: how long the sound plays; \<open>file_length\<close> is what the engine answers to
  \<open>obj.length()\<close>.
\<close>

definition sound_length :: "real \<Rightarrow> real \<Rightarrow> real \<Rightarrow> bool \<Rightarrow> int option \<Rightarrow> real" where
  "sound_length file_length playrate timeoffset looping loopcount =
     (let length1 = (case loopcount of Some n \<Rightarrow> file_length * of_int n | None \<Rightarrow> file_length);
          length2 = (if looping then 100000 else length1);
          length3 = (if 0 < timeoffset then length2 - timeoffset else length2)
      in length3 * playrate)"

text \<open>
  \<open>sound\<close> (lines 263-307). The first argument stands for the file. The non-blocking
  branch schedules \<open>extraArgs=[None,247]\<close>.
\<close>

definition sound ::
    "real \<Rightarrow> bool \<Rightarrow> real \<Rightarrow> real \<Rightarrow> bool \<Rightarrow> int option \<Rightarrow> bool \<Rightarrow> state \<Rightarrow> outcome \<times> state" where
  "sound file_length block playrate timeoffset looping loopcount surround s =
     (let s1 = ensure_audio3d surround s;
          (obj, s2) = loadSfx s1;
          s3 = track obj s2;
          len = sound_length file_length playrate timeoffset looping loopcount;
          s4 = (if implicit_markers s3 then marker 246 s3 else s3)
      in if block then
           discard (destroy_object (Single (Some obj)) (IdInt 247) (sleep len s4))
         else
           (Returned (RObj obj), doMethodLater len (Single None) (IdInt 247) s4))"

text \<open>
  What the engine answers about a movie file: the length of its sound track (\<open>None\<close>
  when loading the sound track raises), the length of the video, and the sizes of the
  video and of the texture holding it.
\<close>

record media =
  sfx_length :: "real option"
  tex_time :: real
  video_width :: int
  video_height :: int
  x_size :: int
  y_size :: int

text \<open>
  The arguments of \<open>movie\<close> that decide what it does; \<open>parent_pixel2d\<close> is the
  outcome of \<open>parent == pixel2d\<close>.
\<close>

record movie_args =
  m_block :: bool
  m_pos :: pyval
  m_hpr :: pyval
  m_scale :: pyval
  m_parent_pixel2d :: bool
  m_timeoffset :: real
  m_playrate :: real
  m_looping :: bool
  m_loopcount :: "int option"
  m_aspect :: "real option"
  m_pixelscale :: bool
  m_contentscale :: "(real \<times> real) option"

text \<open>Lines 366-377: the length of the playback; dividing by a zero play rate raises.\<close>

definition movie_length :: "movie_args \<Rightarrow> real \<Rightarrow> exn + real" where
  "movie_length a length0 =
     (if m_playrate a \<noteq> 1 \<and> m_playrate a = 0 then Inl ZeroDivisionError
      else
        (let length1 = (if m_playrate a \<noteq> 1 then length0 / m_playrate a else length0);
             length2 = (case m_loopcount a of Some n \<Rightarrow> length1 * of_int n | None \<Rightarrow> length1);
             length3 = (if m_looping a then 10000000 else length2);
             length4 = (if 0 < m_timeoffset a then length3 - m_timeoffset a else length3)
         in Inr length4))"

text \<open>Lines 380-381.\<close>

definition movie_aspect :: "movie_args \<Rightarrow> media \<Rightarrow> exn + real" where
  "movie_aspect a m =
     (case m_aspect a of
        Some x \<Rightarrow> Inr x
      | None \<Rightarrow>
          (if video_height m = 0 then Inl ZeroDivisionError
           else Inr (of_int (video_width m) / of_int (video_height m))))"

text \<open>Lines 383-384.\<close>

definition movie_contentscale :: "movie_args \<Rightarrow> media \<Rightarrow> exn + (real \<times> real)" where
  "movie_contentscale a m =
     (case m_contentscale a of
        Some c \<Rightarrow> Inr c
      | None \<Rightarrow>
          (if x_size m = 0 \<or> y_size m = 0 then Inl ZeroDivisionError
           else Inr (of_int (video_width m) / of_int (x_size m),
                     of_int (video_height m) / of_int (y_size m))))"

text \<open>
  An augmented assignment \<open>v[i] op= x\<close>: the item is read first (\<open>IndexError\<close> out of
  range, \<open>TypeError\<close> on what cannot be indexed), and storing into a tuple raises
  \<open>TypeError\<close>.
\<close>

definition aug_item :: "pyval \<Rightarrow> nat \<Rightarrow> (real \<Rightarrow> real) \<Rightarrow> exn + pyval" where
  "aug_item v i f =
     (case v of
        PList xs \<Rightarrow> (if i < length xs then Inr (PList (xs[i := f (xs ! i)])) else Inl IndexError)
      | PTuple xs \<Rightarrow> (if i < length xs then Inl TypeError else Inl IndexError)
      | _ \<Rightarrow> Inl TypeError)"

text \<open>
  Lines 386-399. A scale of two numbers is rebuilt as the tuple \<open>(scale[0],1,scale[1])\<close>
  before its items are assigned to.
\<close>

definition movie_scale :: "movie_args \<Rightarrow> media \<Rightarrow> real \<Rightarrow> exn + pyval" where
  "movie_scale a m aspect =
     (let scale1 = (if m_scale a = PNone then PNum 1 else m_scale a);
          scale2 = (case scale1 of PNum x \<Rightarrow> PList [x, x] | _ \<Rightarrow> scale1)
      in case py_len scale2 of
           Inl e \<Rightarrow> Inl e
         | Inr n \<Rightarrow>
             (let scale3 = (if n = 2 then PTuple [items scale2 ! 0, 1, items scale2 ! 1] else scale2)
              in if m_pixelscale a \<or> m_parent_pixel2d a then
                   (case aug_item scale3 0 (\<lambda>x. x * of_int (video_width m)) of
                      Inl e \<Rightarrow> Inl e
                    | Inr scale4 \<Rightarrow> aug_item scale4 2 (\<lambda>x. x * of_int (video_height m)))
                 else if 1 \<le> aspect then aug_item scale3 2 (\<lambda>x. x / aspect)
                 else aug_item scale3 0 (\<lambda>x. x * aspect)))"

text \<open>
  Lines 402-405. When these lines are reached \<open>scale\<close> is a list or a tuple, so the test
  of the type of \<open>scale\<close> always passes and \<open>len(hpr)\<close> is taken of every \<open>hpr\<close>
  that is not \<open>None\<close>.
\<close>

definition movie_hpr :: "pyval \<Rightarrow> pyval \<Rightarrow> exn + hpr_val" where
  "movie_hpr hpr scale =
     (if hpr \<noteq> PNone \<and> \<not> is_number scale then
        (case py_len hpr of
           Inl e \<Rightarrow> Inl e
         | Inr n \<Rightarrow> Inr (if n = 1 then Roll hpr else Plain hpr))
      else Inr (Plain hpr))"

text \<open>
  Everything \<open>movie\<close> computes between loading the texture and creating the image, in
  the order of the source (lines 359-405); \<open>length0\<close> is the length of the playable.
  The result is the playback length (the other values go to the engine).
\<close>

definition movie_setup :: "movie_args \<Rightarrow> media \<Rightarrow> real \<Rightarrow> exn + real" where
  "movie_setup a m length0 =
     (case movie_length a length0 of
        Inl e \<Rightarrow> Inl e
      | Inr len \<Rightarrow>
          (case movie_aspect a m of
             Inl e \<Rightarrow> Inl e
           | Inr aspect \<Rightarrow>
               (case movie_contentscale a m of
                  Inl e \<Rightarrow> Inl e
                | Inr contentscale \<Rightarrow>
                    (case movie_scale a m aspect of
                       Inl e \<Rightarrow> Inl e
                     | Inr scale \<Rightarrow>
                         (case movie_hpr (m_hpr a) scale of
                            Inl e \<Rightarrow> Inl e
                          | Inr hpr \<Rightarrow> Inr len)))))"

text \<open>
  Lines 338-348: the sound track. A sound that loads with length zero is dropped again
  (the object exists but is neither kept nor tracked).
\<close>

definition movie_sound :: "media \<Rightarrow> state \<Rightarrow> pyobj option \<times> state" where
  "movie_sound m s =
     (case sfx_length m of
        None \<Rightarrow> (None, s)
      | Some l \<Rightarrow>
          (let (snd_obj, s1) = loadSfx s
           in if l = 0 then (None, s1) else (Some snd_obj, track snd_obj s1)))"

text \<open>
  \<open>movie\<close> (lines 309-423). The blocking branch destroys the image alone; the
  non-blocking branch schedules \<open>[img,tex,snd]\<close> and returns the playable.
\<close>

definition movie :: "movie_args \<Rightarrow> media \<Rightarrow> state \<Rightarrow> outcome \<times> state" where
  "movie a m s =
     (let (snd_opt, s1) = movie_sound m s;
          (tex, s2) = loadTexture s1;
          s3 = track tex s2;
          length0 = (case (snd_opt, sfx_length m) of (Some x, Some l) \<Rightarrow> l | _ \<Rightarrow> tex_time m);
          playable = (case snd_opt of Some x \<Rightarrow> x | None \<Rightarrow> tex)
      in case movie_setup a m length0 of
           Inl e \<Rightarrow> (Raised e, s3)
         | Inr len \<Rightarrow>
             (let (img, s4) = OnscreenImage s3;
                  s5 = track img s4;
                  s6 = (if implicit_markers s5 then marker 244 s5 else s5)
              in if m_block a then
                   discard (destroy_object (Single (Some img)) (IdInt 245) (sleep len s6))
                 else
                   (Returned (RObj playable),
                    doMethodLater len (ObjList [Some img, Some tex, snd_opt]) (IdInt 245) s6)))"

text \<open>The default values of the arguments of \<open>movie\<close> (lines 311-333).\<close>

definition default_movie_args :: movie_args where
  "default_movie_args =
     \<lparr>m_block = False, m_pos = PNone, m_hpr = PNone, m_scale = PNone,
      m_parent_pixel2d = False, m_timeoffset = 0, m_playrate = 1, m_looping = False,
      m_loopcount = None, m_aspect = None, m_pixelscale = False, m_contentscale = None\<rparr>"

section \<open>Observations\<close>

text \<open>The marker codes in a trace, in the order they were sent.\<close>

fun markers_of :: "event list \<Rightarrow> int list" where
  "markers_of [] = []"
| "markers_of (Marker n # es) = n # markers_of es"
| "markers_of (e # es) = markers_of es"

text \<open>The warnings in a trace.\<close>

fun warnings_of :: "event list \<Rightarrow> string list" where
  "warnings_of [] = []"
| "warnings_of (Warn w # es) = w # warnings_of es"
| "warnings_of (e # es) = warnings_of es"

text \<open>The elements of a list that are not \<open>None\<close>.\<close>

fun present :: "'a option list \<Rightarrow> 'a list" where
  "present [] = []"
| "present (None # xs) = present xs"
| "present (Some x # xs) = x # present xs"

text \<open>
  An element the loop can finish off: its \<open>destroy\<close> works, or it has no \<open>destroy\<close>
  and its \<open>stop\<close> works; \<open>act\<close> is the call the loop then makes on it.
\<close>

definition works :: "pyobj \<Rightarrow> bool" where
  "works x = (destroy_attr x = Callable \<or> (destroy_attr x = Missing \<and> stop_attr x = Callable))"

definition act :: "pyobj \<Rightarrow> event" where
  "act x = (if destroy_attr x \<noteq> Missing then Destroy x else Stop x)"

text \<open>
  Every tracked object was made by an engine constructor before now, so its identity is
  below the next fresh one.
\<close>

definition fresh :: "state \<Rightarrow> bool" where
  "fresh s = (\<forall>x \<in> set (to_destroy s). oid x < next_oid s)"

text \<open>What a call leaves alone when it only appends non-marker events and untracks objects.\<close>

definition unchanged :: "state \<Rightarrow> state \<Rightarrow> bool" where
  "unchanged s s' =
     (base s' = base s \<and> audio3d s' = audio3d s \<and> implicit_markers s' = implicit_markers s \<and>
      next_oid s' = next_oid s \<and> tasks s' = tasks s \<and>
      markers_of (trace s') = markers_of (trace s) \<and>
      warnings_of (trace s') = warnings_of (trace s))"

abbreviation image :: "nat \<Rightarrow> pyobj" where
  "image n \<equiv> PyObj n Callable Missing"

abbreviation clip :: "nat \<Rightarrow> pyobj" where
  "clip n \<equiv> PyObj n Missing Callable"

abbreviation plain :: "nat \<Rightarrow> pyobj" where
  "plain n \<equiv> PyObj n Missing Missing"

abbreviation mk :: "state \<Rightarrow> int \<Rightarrow> event list" where
  "mk s k \<equiv> (if implicit_markers s then [Marker k] else [])"

abbreviation waits :: "duration \<Rightarrow> event list" where
  "waits duration \<equiv>
     (case duration of
        Hybrid d ev \<Rightarrow> [Sleep d, WaitFor ev]
      | Event ev \<Rightarrow> [WaitFor ev]
      | Fixed d \<Rightarrow> [Sleep d])"

text \<open>Inputs for the worked examples: a silent movie given a three-element list as scale.\<close>

abbreviation demo_args :: movie_args where
  "demo_args \<equiv> default_movie_args\<lparr>m_block := True, m_scale := PList [1, 1, 1]\<rparr>"

abbreviation demo_media :: media where
  "demo_media \<equiv>
     \<lparr>sfx_length = None, tex_time = 10, video_width = 640, video_height = 480,
      x_size = 1024, y_size = 512\<rparr>"

abbreviation demo_state :: state where
  "demo_state \<equiv> (init 0 1)\<lparr>implicit_markers := True, to_destroy := [clip 0]\<rparr>"

section \<open>Facts about the destruction loop\<close>

lemma markers_of_append [simp]: "markers_of (xs @ ys) = markers_of xs @ markers_of ys"
  by (induction xs rule: markers_of.induct) simp_all

lemma warnings_of_append [simp]: "warnings_of (xs @ ys) = warnings_of xs @ warnings_of ys"
  by (induction xs rule: warnings_of.induct) simp_all

lemma elements_Own [simp]: "elements (Own xs) s = xs"
  by (simp add: elements_def)

lemma elements_Tracked [simp]: "elements Tracked s = map Some (to_destroy s)"
  by (simp add: elements_def)

lemma destroy_loop_end:
  "length (elements obj s) \<le> i \<Longrightarrow> destroy_loop i obj s = (None, s)"
  by (simp add: destroy_loop.simps)

lemma destroy_loop_None:
  "i < length (elements obj s) \<Longrightarrow> elements obj s ! i = None \<Longrightarrow>
   destroy_loop i obj s = destroy_loop (Suc i) obj s"
  by (simp add: destroy_loop.simps [of i])

lemma destroy_loop_Some:
  "i < length (elements obj s) \<Longrightarrow> elements obj s ! i = Some ele \<Longrightarrow>
   destroy_loop i obj s =
     (case destroy_element ele obj s of
        (Some e, obj1, s1) \<Rightarrow> (Some e, s1)
      | (None, obj1, s1) \<Rightarrow> destroy_loop (Suc i) obj1 s1)"
  by (simp add: destroy_loop.simps [of i])

lemma destroy_element_unchanged:
  "destroy_element ele obj s = (r, obj1, s1) \<Longrightarrow> unchanged s s1"
  by (auto simp: destroy_element_def list_remove_def emit_def unchanged_def
      split: if_splits target.splits)

lemma destroy_loop_unchanged:
  "destroy_loop i obj s = (r, s') \<Longrightarrow> unchanged s s'"
proof (induction i obj s rule: destroy_loop.induct)
  case (1 i obj s)
  show ?case
  proof (cases "length (elements obj s) \<le> i")
    case True
    with "1.prems" show ?thesis
      by (simp add: destroy_loop_end unchanged_def)
  next
    case False
    show ?thesis
    proof (cases "elements obj s ! i")
      case None
      with False "1.prems" have "destroy_loop (Suc i) obj s = (r, s')"
        by (simp add: destroy_loop_None)
      with "1.IH"(1) False None show ?thesis
        by simp
    next
      case (Some ele)
      obtain e obj1 s1 where de: "destroy_element ele obj s = (e, obj1, s1)"
        by (cases "destroy_element ele obj s") auto
      then have u: "unchanged s s1"
        by (rule destroy_element_unchanged)
      show ?thesis
      proof (cases e)
        case None
        with False Some de "1.prems" have "destroy_loop (Suc i) obj1 s1 = (r, s')"
          by (simp add: destroy_loop_Some)
        with "1.IH"(2) [OF False Some de [symmetric]] None have "unchanged s1 s'"
          by simp
        with u show ?thesis
          by (simp add: unchanged_def)
      next
        case (Some x)
        with False \<open>elements obj s ! i = Some ele\<close> de "1.prems" have "s' = s1"
          by (simp add: destroy_loop_Some)
        with u show ?thesis
          by simp
      qed
    qed
  qed
qed

lemma destroy_element_works:
  "works ele \<Longrightarrow> ele \<in> set (to_destroy s) \<Longrightarrow>
   destroy_element ele obj s =
     (None, obj, s\<lparr>to_destroy := remove1 ele (to_destroy s), trace := trace s @ [act ele]\<rparr>)"
  by (auto simp: destroy_element_def works_def act_def emit_def)

text \<open>
  A stretch of the list whose elements all work and are tracked is gone through in
  order: each is destroyed or stopped, then untracked.
\<close>

lemma destroy_loop_prefix:
  "\<forall>x\<in>set (present xs). works x \<Longrightarrow> distinct (present xs) \<Longrightarrow>
   set (present xs) \<subseteq> set (to_destroy s) \<Longrightarrow>
   destroy_loop (length pre) (Own (pre @ xs @ rest)) s =
   destroy_loop (length pre + length xs) (Own (pre @ xs @ rest))
     (s\<lparr>to_destroy := fold remove1 (present xs) (to_destroy s),
        trace := trace s @ map act (present xs)\<rparr>)"
proof (induction xs arbitrary: pre s)
  case Nil
  then show ?case by simp
next
  case (Cons x xs)
  show ?case
  proof (cases x)
    case None
    have "destroy_loop (length pre) (Own (pre @ (x # xs) @ rest)) s =
          destroy_loop (Suc (length pre)) (Own (pre @ (x # xs) @ rest)) s"
      using None by (simp add: destroy_loop_None)
    also have "\<dots> = destroy_loop (length (pre @ [x])) (Own ((pre @ [x]) @ xs @ rest)) s"
      by simp
    also have "\<dots> = destroy_loop (length (pre @ [x]) + length xs) (Own ((pre @ [x]) @ xs @ rest))
        (s\<lparr>to_destroy := fold remove1 (present xs) (to_destroy s),
           trace := trace s @ map act (present xs)\<rparr>)"
      using Cons.prems None by (intro Cons.IH) simp_all
    finally show ?thesis
      using None by simp
  next
    case (Some a)
    let ?s1 = "s\<lparr>to_destroy := remove1 a (to_destroy s), trace := trace s @ [act a]\<rparr>"
    from Cons.prems Some have a: "works a" "a \<in> set (to_destroy s)" "a \<notin> set (present xs)"
      by simp_all
    have "destroy_loop (length pre) (Own (pre @ (x # xs) @ rest)) s =
          destroy_loop (Suc (length pre)) (Own (pre @ (x # xs) @ rest)) ?s1"
      using Some a by (simp add: destroy_loop_Some destroy_element_works)
    also have "\<dots> = destroy_loop (length (pre @ [x])) (Own ((pre @ [x]) @ xs @ rest)) ?s1"
      by simp
    also have "\<dots> = destroy_loop (length (pre @ [x]) + length xs) (Own ((pre @ [x]) @ xs @ rest))
        (?s1\<lparr>to_destroy := fold remove1 (present xs) (to_destroy ?s1),
           trace := trace ?s1 @ map act (present xs)\<rparr>)"
    proof (intro Cons.IH)
      show "\<forall>x\<in>set (present xs). works x" using Cons.prems Some by simp
      show "distinct (present xs)" using Cons.prems Some by simp
      show "set (present xs) \<subseteq> set (to_destroy ?s1)"
      proof
        fix y assume y: "y \<in> set (present xs)"
        with a(3) have "y \<noteq> a" by auto
        moreover from y Cons.prems(3) have "y \<in> set (to_destroy s)" using Some by auto
        ultimately show "y \<in> set (to_destroy ?s1)" by (simp add: in_set_remove1)
      qed
    qed
    finally show ?thesis
      using Some by simp
  qed
qed

lemma destroy_loop_all:
  "\<forall>x\<in>set (present xs). works x \<Longrightarrow> distinct (present xs) \<Longrightarrow>
   set (present xs) \<subseteq> set (to_destroy s) \<Longrightarrow>
   destroy_loop 0 (Own xs) s =
     (None, s\<lparr>to_destroy := fold remove1 (present xs) (to_destroy s),
              trace := trace s @ map act (present xs)\<rparr>)"
  using destroy_loop_prefix [of xs s "[]" "[]"] by (simp add: destroy_loop_end)

section \<open>The primitives, field by field\<close>

lemma emit_sel:
  "base (emit e s) = base s" "audio3d (emit e s) = audio3d s"
  "implicit_markers (emit e s) = implicit_markers s" "to_destroy (emit e s) = to_destroy s"
  "next_oid (emit e s) = next_oid s" "trace (emit e s) = trace s @ [e]"
  "tasks (emit e s) = tasks s"
  by (simp_all add: emit_def)

lemma marker_sel:
  "base (marker k s) = base s" "audio3d (marker k s) = audio3d s"
  "implicit_markers (marker k s) = implicit_markers s" "to_destroy (marker k s) = to_destroy s"
  "next_oid (marker k s) = next_oid s" "trace (marker k s) = trace s @ [Marker k]"
  "tasks (marker k s) = tasks s"
  by (simp_all add: marker_def emit_def)

lemma sleep_sel:
  "base (sleep d s) = base s" "audio3d (sleep d s) = audio3d s"
  "implicit_markers (sleep d s) = implicit_markers s" "to_destroy (sleep d s) = to_destroy s"
  "next_oid (sleep d s) = next_oid s" "trace (sleep d s) = trace s @ [Sleep d]"
  "tasks (sleep d s) = tasks s"
  by (simp_all add: sleep_def emit_def)

lemma waitfor_sel:
  "base (waitfor ev s) = base s" "audio3d (waitfor ev s) = audio3d s"
  "implicit_markers (waitfor ev s) = implicit_markers s"
  "to_destroy (waitfor ev s) = to_destroy s"
  "next_oid (waitfor ev s) = next_oid s" "trace (waitfor ev s) = trace s @ [WaitFor ev]"
  "tasks (waitfor ev s) = tasks s"
  by (simp_all add: waitfor_def emit_def)

lemma track_sel:
  "base (track x s) = base s" "audio3d (track x s) = audio3d s"
  "implicit_markers (track x s) = implicit_markers s"
  "to_destroy (track x s) = to_destroy s @ [x]"
  "next_oid (track x s) = next_oid s" "trace (track x s) = trace s"
  "tasks (track x s) = tasks s"
  by (simp_all add: track_def)

lemma doMethodLater_sel:
  "base (doMethodLater d x k s) = base s" "audio3d (doMethodLater d x k s) = audio3d s"
  "implicit_markers (doMethodLater d x k s) = implicit_markers s"
  "to_destroy (doMethodLater d x k s) = to_destroy s"
  "next_oid (doMethodLater d x k s) = next_oid s" "trace (doMethodLater d x k s) = trace s"
  "tasks (doMethodLater d x k s) = tasks s @ [Task d x k]"
  by (simp_all add: doMethodLater_def)

lemma new_object_sel:
  "fst (new_object a b s) = PyObj (next_oid s) a b"
  "base (snd (new_object a b s)) = base s" "audio3d (snd (new_object a b s)) = audio3d s"
  "implicit_markers (snd (new_object a b s)) = implicit_markers s"
  "to_destroy (snd (new_object a b s)) = to_destroy s"
  "next_oid (snd (new_object a b s)) = Suc (next_oid s)"
  "trace (snd (new_object a b s)) = trace s @ [Create (PyObj (next_oid s) a b)]"
  "tasks (snd (new_object a b s)) = tasks s"
  by (simp_all add: new_object_def emit_def Let_def)

lemma ensure_audio3d_simps:
  "to_destroy (ensure_audio3d b s) = to_destroy s"
  "trace (ensure_audio3d b s) = trace s"
  "tasks (ensure_audio3d b s) = tasks s"
  "implicit_markers (ensure_audio3d b s) = implicit_markers s"
  "base (ensure_audio3d b s) = base s"
  "next_oid s \<le> next_oid (ensure_audio3d b s)"
  by (simp_all add: ensure_audio3d_def Audio3DManager_def)

lemma snd_discard [simp]: "snd (discard r) = snd r"
  by (cases r; cases "fst r") (auto simp: discard_def)

lemma fst_discard:
  "fst (discard r) = (case fst r of Returned v \<Rightarrow> Returned RNone | Raised e \<Rightarrow> Raised e)"
  by (cases r; cases "fst r") (auto simp: discard_def)

section \<open>What the destruction helper leaves alone, and what it does when all goes well\<close>

lemma destroy_object_returns: "fst (destroy_object obj mid s) = Returned RNone"
  by (simp add: destroy_object_def split: prod.splits option.splits)

lemma destroy_try_unchanged:
  "destroy_try obj mid s = (r, s') \<Longrightarrow>
   base s' = base s \<and> audio3d s' = audio3d s \<and> implicit_markers s' = implicit_markers s \<and>
   next_oid s' = next_oid s \<and> tasks s' = tasks s \<and>
   warnings_of (trace s') = warnings_of (trace s) \<and>
   markers_of (trace s') = markers_of (trace s) @
     (case mid of IdInt n \<Rightarrow> if 0 < n \<and> implicit_markers s then [n] else [] | IdStr x \<Rightarrow> [])"
proof (cases mid)
  case (IdStr x)
  assume "destroy_try obj mid s = (r, s')"
  with IdStr show ?thesis
    by (simp add: destroy_try_def id_gt_zero_def)
next
  case (IdInt n)
  assume a: "destroy_try obj mid s = (r, s')"
  show ?thesis
  proof (cases "0 < n \<and> implicit_markers s")
    case True
    with a IdInt have "destroy_loop 0 obj (marker n s) = (r, s')"
      by (simp add: destroy_try_def id_gt_zero_def)
    then have "unchanged (marker n s) s'"
      by (rule destroy_loop_unchanged)
    with True IdInt show ?thesis
      by (simp add: unchanged_def marker_def emit_def)
  next
    case False
    with a IdInt have "destroy_loop 0 obj s = (r, s')"
      by (auto simp: destroy_try_def id_gt_zero_def)
    then have "unchanged s s'"
      by (rule destroy_loop_unchanged)
    with False IdInt show ?thesis
      by (auto simp: unchanged_def)
  qed
qed

lemma destroy_object_unchanged:
  "base (snd (destroy_object obj mid s)) = base s"
  "audio3d (snd (destroy_object obj mid s)) = audio3d s"
  "implicit_markers (snd (destroy_object obj mid s)) = implicit_markers s"
  "next_oid (snd (destroy_object obj mid s)) = next_oid s"
  "tasks (snd (destroy_object obj mid s)) = tasks s"
  "markers_of (trace (snd (destroy_object obj mid s))) = markers_of (trace s) @
     (case mid of IdInt n \<Rightarrow> if 0 < n \<and> implicit_markers s then [n] else [] | IdStr x \<Rightarrow> [])"
proof -
  obtain r s' where d: "destroy_try (as_list obj) mid s = (r, s')"
    by (cases "destroy_try (as_list obj) mid s") auto
  note u = destroy_try_unchanged [OF d]
  have s: "snd (destroy_object obj mid s) =
      (case r of None \<Rightarrow> s' | Some e \<Rightarrow> emit (Warn ''Error in destryoing objects'') s')"
    by (simp add: destroy_object_def d split: option.splits)
  show "base (snd (destroy_object obj mid s)) = base s"
    using u by (simp add: s emit_def split: option.splits)
  show "audio3d (snd (destroy_object obj mid s)) = audio3d s"
    using u by (simp add: s emit_def split: option.splits)
  show "implicit_markers (snd (destroy_object obj mid s)) = implicit_markers s"
    using u by (simp add: s emit_def split: option.splits)
  show "next_oid (snd (destroy_object obj mid s)) = next_oid s"
    using u by (simp add: s emit_def split: option.splits)
  show "tasks (snd (destroy_object obj mid s)) = tasks s"
    using u by (simp add: s emit_def split: option.splits)
  show "markers_of (trace (snd (destroy_object obj mid s))) = markers_of (trace s) @
     (case mid of IdInt n \<Rightarrow> if 0 < n \<and> implicit_markers s then [n] else [] | IdStr x \<Rightarrow> [])"
    using u by (simp add: s emit_def split: option.splits)
qed

lemma as_list_Own: "obj \<noteq> TrackedList \<Longrightarrow> as_list obj = Own (elements (as_list obj) s)"
  by (cases obj) simp_all

lemma elements_as_list [simp]:
  "elements (as_list (Single x)) s = [x]"
  "elements (as_list (ObjList xs)) s = xs"
  "elements (as_list (ObjTuple xs)) s = xs"
  by simp_all

lemma destroy_object_works:
  assumes "obj \<noteq> TrackedList" "\<forall>x\<in>set (present (elements (as_list obj) s)). works x"
    "distinct (present (elements (as_list obj) s))"
    "set (present (elements (as_list obj) s)) \<subseteq> set (to_destroy s)"
  shows "destroy_object obj (IdInt n) s =
     (Returned RNone,
      s\<lparr>to_destroy := fold remove1 (present (elements (as_list obj) s)) (to_destroy s),
        trace := trace s @ (if 0 < n \<and> implicit_markers s then [Marker n] else []) @
                 map act (present (elements (as_list obj) s))\<rparr>)"
proof -
  let ?xs = "elements (as_list obj) s"
  have a: "as_list obj = Own ?xs"
    using assms(1) by (rule as_list_Own)
  have "destroy_try (Own ?xs) (IdInt n) s =
      (None, s\<lparr>to_destroy := fold remove1 (present ?xs) (to_destroy s),
        trace := trace s @ (if 0 < n \<and> implicit_markers s then [Marker n] else []) @
                 map act (present ?xs)\<rparr>)"
    using assms(2-4)
    by (simp add: destroy_try_def id_gt_zero_def destroy_loop_all marker_def emit_def)
  then show ?thesis
    unfolding destroy_object_def by (subst a) simp
qed

lemma destroy_object_works_sel:
  assumes "obj \<noteq> TrackedList" "\<forall>x\<in>set (present (elements (as_list obj) s)). works x"
    "distinct (present (elements (as_list obj) s))"
    "set (present (elements (as_list obj) s)) \<subseteq> set (to_destroy s)"
  shows "to_destroy (snd (destroy_object obj (IdInt n) s)) =
           fold remove1 (present (elements (as_list obj) s)) (to_destroy s)"
    and "trace (snd (destroy_object obj (IdInt n) s)) =
           trace s @ (if 0 < n \<and> implicit_markers s then [Marker n] else []) @
           map act (present (elements (as_list obj) s))"
  by (simp_all add: destroy_object_works [OF assms])

lemma fresh_notin: "fresh s \<Longrightarrow> next_oid s \<le> n \<Longrightarrow> PyObj n a b \<notin> set (to_destroy s)"
  by (auto simp: fresh_def)

lemma ensure_audio3d_fresh: "fresh s \<Longrightarrow> fresh (ensure_audio3d b s)"
  by (auto simp: fresh_def ensure_audio3d_def Audio3DManager_def)

lemma movie_sound_fields:
  "movie_sound m s = (so, s1) \<Longrightarrow>
   base s1 = base s \<and> audio3d s1 = audio3d s \<and> implicit_markers s1 = implicit_markers s \<and>
   tasks s1 = tasks s \<and> markers_of (trace s1) = markers_of (trace s) \<and>
   next_oid s \<le> next_oid s1"
  by (auto simp: movie_sound_def loadSfx_def new_object_def emit_def track_def Let_def
      split: option.splits if_splits)

lemma movie_sound_fresh: "movie_sound m s = (so, s1) \<Longrightarrow> fresh s \<Longrightarrow> fresh s1"
  by (auto simp: movie_sound_def loadSfx_def new_object_def emit_def track_def Let_def
      fresh_def less_Suc_eq split: option.splits if_splits)

lemmas sel = emit_sel marker_sel sleep_sel waitfor_sel track_sel doMethodLater_sel new_object_sel
  OnscreenText_def OnscreenImage_def loadSfx_def loadTexture_def is_zero_def
  destroy_object_unchanged destroy_object_returns fst_discard split_beta Let_def

lemmas go = sel destroy_object_works_sel works_def act_def remove1_append fresh_notin

section \<open>The blocking branch of the factories\<close>

lemma write_text_blocking:
  "fresh s \<Longrightarrow> \<not> is_zero duration \<Longrightarrow>
   write_text duration True s =
     (Returned RNone,
      s\<lparr>next_oid := Suc (next_oid s),
        trace := trace s @ [Create (image (next_oid s))] @ mk s 254 @ waits duration @
                 mk s 255 @ [Destroy (image (next_oid s))]\<rparr>)"
  by (intro prod_eqI state.equality; cases duration)
    (simp_all add: write_text_def go)

lemma crosshair_blocking:
  "fresh s \<Longrightarrow>
   crosshair duration True s =
     (Returned RNone,
      s\<lparr>next_oid := Suc (Suc (next_oid s)),
        trace := trace s @ [Create (image (next_oid s)), Create (image (Suc (next_oid s)))] @
                 mk s 252 @ waits duration @ mk s 253 @
                 [Destroy (image (next_oid s)), Destroy (image (Suc (next_oid s)))]\<rparr>)"
  by (intro prod_eqI state.equality; cases duration)
    (simp_all add: crosshair_def go)

lemma rectangle_blocking:
  "fresh s \<Longrightarrow> \<not> is_zero duration \<Longrightarrow>
   rectangle duration True s =
     (Returned RNone,
      s\<lparr>next_oid := Suc (next_oid s),
        trace := trace s @ [Create (image (next_oid s))] @ mk s 250 @ waits duration @
                 mk s 251 @ [Destroy (image (next_oid s))]\<rparr>)"
  by (intro prod_eqI state.equality; cases duration)
    (simp_all add: rectangle_def go)

lemma frame_blocking:
  "fresh s \<Longrightarrow>
   frame duration True s =
     (Returned RNone,
      s\<lparr>next_oid := Suc (Suc (Suc (Suc (next_oid s)))),
        trace := trace s @
                 [Create (image (next_oid s)), Create (image (Suc (next_oid s))),
                  Create (image (Suc (Suc (next_oid s)))),
                  Create (image (Suc (Suc (Suc (next_oid s)))))] @
                 mk s 242 @ waits duration @ mk s 243 @
                 [Destroy (image (next_oid s)), Destroy (image (Suc (next_oid s))),
                  Destroy (image (Suc (Suc (next_oid s)))),
                  Destroy (image (Suc (Suc (Suc (next_oid s)))))]\<rparr>)"
  by (intro prod_eqI state.equality; cases duration)
    (simp_all add: frame_def go)

lemma picture_blocking:
  "fresh s \<Longrightarrow> \<not> is_zero duration \<Longrightarrow> picture_geometry pos hpr scale = Inr g \<Longrightarrow>
   picture duration True pos hpr scale s =
     (Returned RNone,
      s\<lparr>next_oid := Suc (next_oid s),
        trace := trace s @ [Create (image (next_oid s))] @ mk s 248 @ waits duration @
                 mk s 249 @ [Destroy (image (next_oid s))]\<rparr>)"
  by (intro prod_eqI state.equality; cases duration)
    (simp_all add: picture_def go)

lemma sound_blocking:
  assumes "fresh s"
  shows "sound file_length True playrate timeoffset looping loopcount surround s =
     (Returned RNone,
      (ensure_audio3d surround s)
        \<lparr>next_oid := Suc (next_oid (ensure_audio3d surround s)),
         trace := trace s @ [Create (clip (next_oid (ensure_audio3d surround s)))] @
                  mk s 246 @
                  [Sleep (sound_length file_length playrate timeoffset looping loopcount)] @
                  mk s 247 @ [Stop (clip (next_oid (ensure_audio3d surround s)))]\<rparr>)"
  using assms ensure_audio3d_fresh [OF assms, of surround]
  by (intro prod_eqI state.equality)
    (simp_all add: sound_def go ensure_audio3d_simps)

lemma movie_blocking:
  assumes "fresh s" "m_block a" "movie_sound m s = (so, s1)"
    "movie_setup a m (case (so, sfx_length m) of (Some x, Some l) \<Rightarrow> l | _ \<Rightarrow> tex_time m) = Inr len"
  shows "movie a m s =
     (Returned RNone,
      s1\<lparr>to_destroy := to_destroy s1 @ [clip (next_oid s1)],
         next_oid := Suc (Suc (next_oid s1)),
         trace := trace s1 @ [Create (clip (next_oid s1)), Create (image (Suc (next_oid s1)))] @
                  mk s 244 @ [Sleep len] @ mk s 245 @
                  [Destroy (image (Suc (next_oid s1)))]\<rparr>)"
  using assms movie_sound_fresh [OF assms(3,1)] movie_sound_fields [OF assms(3)]
  by (intro prod_eqI state.equality)
    (simp_all add: movie_def go)

section \<open>The non-blocking branch of the factories\<close>

lemma write_text_nonblocking:
  "\<not> block \<or> d = 0 \<Longrightarrow>
   write_text (Fixed d) block s =
     (Returned (RObj (image (next_oid s))),
      s\<lparr>to_destroy := to_destroy s @ [image (next_oid s)],
        next_oid := Suc (next_oid s),
        trace := trace s @ [Create (image (next_oid s))] @ mk s 254,
        tasks := tasks s @
          (if 0 < d then [Task d (Single (Some (image (next_oid s)))) (IdInt 255)] else [])\<rparr>)"
  by (intro prod_eqI state.equality)
    (auto simp: write_text_def sel)

lemma rectangle_nonblocking:
  "\<not> block \<or> d = 0 \<Longrightarrow>
   rectangle (Fixed d) block s =
     (Returned (RObj (image (next_oid s))),
      s\<lparr>to_destroy := to_destroy s @ [image (next_oid s)],
        next_oid := Suc (next_oid s),
        trace := trace s @ [Create (image (next_oid s))] @ mk s 250,
        tasks := tasks s @
          (if 0 < d then [Task d (Single (Some (image (next_oid s)))) (IdInt 251)] else [])\<rparr>)"
  by (intro prod_eqI state.equality)
    (auto simp: rectangle_def sel)

lemma picture_nonblocking:
  "\<not> block \<or> d = 0 \<Longrightarrow> picture_geometry pos hpr scale = Inr g \<Longrightarrow>
   picture (Fixed d) block pos hpr scale s =
     (Returned (RObj (image (next_oid s))),
      s\<lparr>to_destroy := to_destroy s @ [image (next_oid s)],
        next_oid := Suc (next_oid s),
        trace := trace s @ [Create (image (next_oid s))] @ mk s 248,
        tasks := tasks s @
          (if 0 < d then [Task d (Single (Some (image (next_oid s)))) (IdInt 249)] else [])\<rparr>)"
  by (intro prod_eqI state.equality)
    (auto simp: picture_def sel)

lemma crosshair_nonblocking:
  "crosshair (Fixed d) False s =
     (Returned (RHelper [image (next_oid s), image (Suc (next_oid s))]),
      s\<lparr>to_destroy := to_destroy s @ [image (next_oid s), image (Suc (next_oid s))],
        next_oid := Suc (Suc (next_oid s)),
        trace := trace s @ [Create (image (next_oid s)), Create (image (Suc (next_oid s)))] @
                 mk s 252,
        tasks := tasks s @
          (if 0 < d
           then [Task d (ObjList [Some (image (next_oid s)), Some (image (Suc (next_oid s)))])
                   (IdInt 253)]
           else [])\<rparr>)"
  by (intro prod_eqI state.equality)
    (simp_all add: crosshair_def sel)

lemma frame_nonblocking:
  "frame (Fixed d) False s =
     (Returned (RHelper [image (next_oid s), image (Suc (next_oid s)),
                         image (Suc (Suc (next_oid s))), image (Suc (Suc (Suc (next_oid s))))]),
      s\<lparr>to_destroy := to_destroy s @
          [image (next_oid s), image (Suc (next_oid s)),
           image (Suc (Suc (next_oid s))), image (Suc (Suc (Suc (next_oid s))))],
        next_oid := Suc (Suc (Suc (Suc (next_oid s)))),
        trace := trace s @
                 [Create (image (next_oid s)), Create (image (Suc (next_oid s))),
                  Create (image (Suc (Suc (next_oid s)))),
                  Create (image (Suc (Suc (Suc (next_oid s)))))] @
                 mk s 242,
        tasks := tasks s @
          (if 0 < d
           then [Task d (ObjList [Some (image (next_oid s)), Some (image (Suc (next_oid s))),
                                  Some (image (Suc (Suc (next_oid s)))),
                                  Some (image (Suc (Suc (Suc (next_oid s)))))])
                   (IdInt 243)]
           else [])\<rparr>)"
  by (intro prod_eqI state.equality)
    (simp_all add: frame_def sel)

lemma sound_nonblocking:
  "sound file_length False playrate timeoffset looping loopcount surround s =
     (Returned (RObj (clip (next_oid (ensure_audio3d surround s)))),
      (ensure_audio3d surround s)
        \<lparr>to_destroy := to_destroy s @ [clip (next_oid (ensure_audio3d surround s))],
         next_oid := Suc (next_oid (ensure_audio3d surround s)),
         trace := trace s @ [Create (clip (next_oid (ensure_audio3d surround s)))] @ mk s 246,
         tasks := tasks s @
           [Task (sound_length file_length playrate timeoffset looping loopcount)
              (Single None) (IdInt 247)]\<rparr>)"
  by (intro prod_eqI state.equality)
    (simp_all add: sound_def sel ensure_audio3d_simps)

lemma movie_nonblocking:
  assumes "\<not> m_block a" "movie_sound m s = (so, s1)"
    "movie_setup a m (case (so, sfx_length m) of (Some x, Some l) \<Rightarrow> l | _ \<Rightarrow> tex_time m) = Inr len"
  shows "movie a m s =
     (Returned (RObj (case so of Some x \<Rightarrow> x | None \<Rightarrow> clip (next_oid s1))),
      s1\<lparr>to_destroy := to_destroy s1 @ [clip (next_oid s1), image (Suc (next_oid s1))],
         next_oid := Suc (Suc (next_oid s1)),
         trace := trace s1 @ [Create (clip (next_oid s1)), Create (image (Suc (next_oid s1)))] @
                  mk s 244,
         tasks := tasks s @
           [Task len (ObjList [Some (image (Suc (next_oid s1))), Some (clip (next_oid s1)), so])
              (IdInt 245)]\<rparr>)"
  using assms movie_sound_fields [OF assms(2)]
  by (intro prod_eqI state.equality)
    (simp_all add: movie_def sel split: option.splits)

section \<open>The markers every call sends\<close>

lemma write_text_markers:
  "markers_of (trace (snd (write_text duration block s))) =
   markers_of (trace s) @ (if implicit_markers s then [254] else []) @
   (if block \<and> \<not> is_zero duration \<and> implicit_markers s then [255] else [])"
  by (simp add: write_text_def sel split: duration.splits)

lemma crosshair_markers:
  "markers_of (trace (snd (crosshair duration block s))) =
   markers_of (trace s) @ (if implicit_markers s then [252] else []) @
   (if block \<and> implicit_markers s then [253] else [])"
  by (simp add: crosshair_def sel split: duration.splits)

lemma rectangle_markers:
  "markers_of (trace (snd (rectangle duration block s))) =
   markers_of (trace s) @ (if implicit_markers s then [250] else []) @
   (if block \<and> \<not> is_zero duration \<and> implicit_markers s then [251] else [])"
  by (simp add: rectangle_def sel split: duration.splits)

lemma frame_markers:
  "markers_of (trace (snd (frame duration block s))) =
   markers_of (trace s) @ (if implicit_markers s then [242] else []) @
   (if block \<and> implicit_markers s then [243] else [])"
  by (simp add: frame_def sel split: duration.splits)

lemma picture_markers:
  "markers_of (trace (snd (picture duration block pos hpr scale s))) =
   markers_of (trace s) @
   (case picture_geometry pos hpr scale of
      Inl e \<Rightarrow> []
    | Inr g \<Rightarrow> (if implicit_markers s then [248] else []) @
        (if block \<and> \<not> is_zero duration \<and> implicit_markers s then [249] else []))"
  by (simp add: picture_def sel split: duration.splits sum.splits)

lemma sound_markers:
  "markers_of (trace (snd (sound file_length block playrate timeoffset looping loopcount surround s))) =
   markers_of (trace s) @ (if implicit_markers s then [246] else []) @
   (if block \<and> implicit_markers s then [247] else [])"
  by (simp add: sound_def sel ensure_audio3d_simps)

lemma movie_markers:
  assumes "movie_sound m s = (so, s1)"
  shows "markers_of (trace (snd (movie a m s))) =
   markers_of (trace s) @
   (case movie_setup a m (case (so, sfx_length m) of (Some x, Some l) \<Rightarrow> l | _ \<Rightarrow> tex_time m) of
      Inl e \<Rightarrow> []
    | Inr len \<Rightarrow> (if implicit_markers s then [244] else []) @
        (if m_block a \<and> implicit_markers s then [245] else []))"
  using assms movie_sound_fields [OF assms]
  by (simp add: movie_def sel split: sum.splits)

section \<open>The instance fields every call leaves alone\<close>

lemma write_text_fields:
  "base (snd (write_text duration block s)) = base s \<and>
   implicit_markers (snd (write_text duration block s)) = implicit_markers s \<and>
   audio3d (snd (write_text duration block s)) = audio3d s"
  by (simp add: write_text_def sel split: duration.splits)

lemma crosshair_fields:
  "base (snd (crosshair duration block s)) = base s \<and>
   implicit_markers (snd (crosshair duration block s)) = implicit_markers s \<and>
   audio3d (snd (crosshair duration block s)) = audio3d s"
  by (simp add: crosshair_def sel split: duration.splits)

lemma rectangle_fields:
  "base (snd (rectangle duration block s)) = base s \<and>
   implicit_markers (snd (rectangle duration block s)) = implicit_markers s \<and>
   audio3d (snd (rectangle duration block s)) = audio3d s"
  by (simp add: rectangle_def sel split: duration.splits)

lemma frame_fields:
  "base (snd (frame duration block s)) = base s \<and>
   implicit_markers (snd (frame duration block s)) = implicit_markers s \<and>
   audio3d (snd (frame duration block s)) = audio3d s"
  by (simp add: frame_def sel split: duration.splits)

lemma picture_fields:
  "base (snd (picture duration block pos hpr scale s)) = base s \<and>
   implicit_markers (snd (picture duration block pos hpr scale s)) = implicit_markers s \<and>
   audio3d (snd (picture duration block pos hpr scale s)) = audio3d s"
  by (simp add: picture_def sel split: duration.splits sum.splits)

lemma sound_fields:
  "base (snd (sound file_length block playrate timeoffset looping loopcount surround s)) = base s \<and>
   implicit_markers (snd (sound file_length block playrate timeoffset looping loopcount surround s)) =
     implicit_markers s \<and>
   audio3d (snd (sound file_length block playrate timeoffset looping loopcount surround s)) =
     (if surround \<and> audio3d s = None then Some (PyObj (next_oid s) Missing Missing)
      else audio3d s)"
  by (simp add: sound_def sel ensure_audio3d_simps)
    (simp add: ensure_audio3d_def Audio3DManager_def)

lemma movie_fields:
  "base (snd (movie a m s)) = base s \<and>
   implicit_markers (snd (movie a m s)) = implicit_markers s \<and>
   audio3d (snd (movie a m s)) = audio3d s"
proof -
  obtain so s1 where ms: "movie_sound m s = (so, s1)"
    by (cases "movie_sound m s") auto
  show ?thesis
    using ms movie_sound_fields [OF ms]
    by (simp add: movie_def sel split: sum.splits)
qed

section \<open>The loop up to the first failure\<close>

lemma destroy_loop_reaches:
  assumes "\<forall>y\<in>set (present xs). works y" "distinct (present xs)"
    "set (present xs) \<subseteq> set (to_destroy s)"
  shows "destroy_loop 0 (Own (xs @ Some x # ys)) s =
     (case destroy_element x (Own (xs @ Some x # ys))
        (s\<lparr>to_destroy := fold remove1 (present xs) (to_destroy s),
           trace := trace s @ map act (present xs)\<rparr>) of
        (Some e, obj1, s3) \<Rightarrow> (Some e, s3)
      | (None, obj1, s3) \<Rightarrow> destroy_loop (Suc (length xs)) obj1 s3)"
  using destroy_loop_prefix [OF assms, of "[]" "Some x # ys"]
  by (simp add: destroy_loop_Some nth_append)

lemma destroy_element_raises:
  "destroy_attr x = Raising \<or> (destroy_attr x = Missing \<and> stop_attr x = Raising) \<Longrightarrow>
   destroy_element x obj s = (Some EngineError, obj, s)"
  by (auto simp: destroy_element_def)

lemma destroy_element_untracked:
  "works x \<Longrightarrow> x \<notin> set (to_destroy s) \<Longrightarrow>
   destroy_element x obj s = (Some ValueError, obj, emit (act x) s)"
  by (auto simp: destroy_element_def works_def act_def emit_def)

lemma destroy_element_plain_untracked:
  "destroy_attr x = Missing \<Longrightarrow> stop_attr x = Missing \<Longrightarrow> x \<notin> set (to_destroy s) \<Longrightarrow>
   destroy_element x (Own obj) s = (Some ValueError, Own (remove1 (Some x) obj), s)"
  by (auto simp: destroy_element_def list_remove_def)

lemma destroy_try_loop:
  "destroy_try obj (IdInt n) s =
     destroy_loop 0 obj (if 0 < n \<and> implicit_markers s then marker n s else s)"
  by (simp add: destroy_try_def id_gt_zero_def)

lemmas step = destroy_object_def destroy_try_def id_gt_zero_def destroy_loop.simps
  destroy_element_def list_remove_def emit_def init_def

section \<open>The scale argument of movie\<close>

lemma movie_scale_number:
  "m_scale a = PNone \<or> is_number (m_scale a) \<Longrightarrow> movie_scale a m aspect = Inl TypeError"
  by (cases "m_scale a")
    (auto simp: movie_scale_def is_number_def py_len_def aug_item_def items_def Let_def)

lemma movie_setup_number:
  "m_scale a = PNone \<or> is_number (m_scale a) \<Longrightarrow>
   movie_setup a m l0 = Inl TypeError \<or> movie_setup a m l0 = Inl ZeroDivisionError"
  by (auto simp: movie_setup_def movie_scale_number movie_length_def movie_aspect_def
      movie_contentscale_def Let_def split: sum.splits option.splits if_splits)

section \<open>The worked examples\<close>

lemma demo_setup: "movie_setup demo_args demo_media 10 = Inr 10"
  by (simp add: movie_setup_def movie_length_def movie_aspect_def movie_contentscale_def
      movie_scale_def aug_item_def py_len_def movie_hpr_def items_def default_movie_args_def)

lemma demo_setup_nonblocking:
  "movie_setup (demo_args\<lparr>m_block := False\<rparr>) demo_media 10 = Inr 10"
  by (simp add: movie_setup_def movie_length_def movie_aspect_def movie_contentscale_def
      movie_scale_def aug_item_def py_len_def movie_hpr_def items_def default_movie_args_def)

lemma demo_sound: "movie_sound demo_media s = (None, s)"
  by (simp add: movie_sound_def)

lemma demo_fresh: "fresh demo_state"
  by (simp add: fresh_def init_def)

lemma demo_geometry: "picture_geometry PNone PNone PNone = Inr (PNone, Plain PNone, PNone)"
  by (simp add: picture_geometry_def pair_to_triple_def)

section \<open>Claims about the duration policy\<close>

text \<open>
  C6: every visual factory whose blocking branch is taken (\<open>block\<close> true and, in
  \<open>write\<close>, \<open>rectangle\<close> and \<open>picture\<close>, a duration that is not \<open>0\<close>) creates
  its objects, sends the onset marker when markers are automatic, then waits as the
  duration says: a pair \<open>[number, event]\<close> sleeps for the number and then waits for the
  event, a string waits for the event, a number sleeps for that long. Right after the
  wait the objects are destroyed and no longer tracked.
\<close>

theorem blocking_visual_factories:
  assumes "fresh s"
  shows
   "(\<not> is_zero duration \<longrightarrow>
       write_text duration True s =
         (Returned RNone,
          s\<lparr>next_oid := Suc (next_oid s),
            trace := trace s @ [Create (image (next_oid s))] @ mk s 254 @ waits duration @
                     mk s 255 @ [Destroy (image (next_oid s))]\<rparr>)) \<and>
    crosshair duration True s =
      (Returned RNone,
       s\<lparr>next_oid := Suc (Suc (next_oid s)),
         trace := trace s @ [Create (image (next_oid s)), Create (image (Suc (next_oid s)))] @
                  mk s 252 @ waits duration @ mk s 253 @
                  [Destroy (image (next_oid s)), Destroy (image (Suc (next_oid s)))]\<rparr>) \<and>
    (\<not> is_zero duration \<longrightarrow>
       rectangle duration True s =
         (Returned RNone,
          s\<lparr>next_oid := Suc (next_oid s),
            trace := trace s @ [Create (image (next_oid s))] @ mk s 250 @ waits duration @
                     mk s 251 @ [Destroy (image (next_oid s))]\<rparr>)) \<and>
    frame duration True s =
      (Returned RNone,
       s\<lparr>next_oid := Suc (Suc (Suc (Suc (next_oid s)))),
         trace := trace s @
                  [Create (image (next_oid s)), Create (image (Suc (next_oid s))),
                   Create (image (Suc (Suc (next_oid s)))),
                   Create (image (Suc (Suc (Suc (next_oid s)))))] @
                  mk s 242 @ waits duration @ mk s 243 @
                  [Destroy (image (next_oid s)), Destroy (image (Suc (next_oid s))),
                   Destroy (image (Suc (Suc (next_oid s)))),
                   Destroy (image (Suc (Suc (Suc (next_oid s)))))]\<rparr>) \<and>
    (\<not> is_zero duration \<and> picture_geometry pos hpr scale = Inr g \<longrightarrow>
       picture duration True pos hpr scale s =
         (Returned RNone,
          s\<lparr>next_oid := Suc (next_oid s),
            trace := trace s @ [Create (image (next_oid s))] @ mk s 248 @ waits duration @
                     mk s 249 @ [Destroy (image (next_oid s))]\<rparr>))"
  using assms
  by (simp add: write_text_blocking crosshair_blocking rectangle_blocking frame_blocking
      picture_blocking)

theorem blocking_visual_factories_witness:
  "fresh ((init 0 1)\<lparr>to_destroy := [clip 0]\<rparr>) \<and>
   \<not> is_zero (Hybrid 2 ''space'') \<and>
   picture_geometry (PTuple [0, 0]) PNone (PNum 1) = Inr (PTuple [0, 0, 0], Plain PNone, PNum 1) \<and>
   write_text (Hybrid 2 ''space'') True ((init 0 1)\<lparr>to_destroy := [clip 0]\<rparr>) =
     (Returned RNone,
      (init 0 1)\<lparr>to_destroy := [clip 0], next_oid := 2,
         trace := [Create (image 1), Sleep 2, WaitFor ''space'', Destroy (image 1)]\<rparr>) \<and>
   crosshair (Hybrid 2 ''space'') True ((init 0 1)\<lparr>to_destroy := [clip 0]\<rparr>) =
     (Returned RNone,
      (init 0 1)\<lparr>to_destroy := [clip 0], next_oid := 3,
         trace := [Create (image 1), Create (image 2), Sleep 2, WaitFor ''space'',
                   Destroy (image 1), Destroy (image 2)]\<rparr>) \<and>
   rectangle (Hybrid 2 ''space'') True ((init 0 1)\<lparr>to_destroy := [clip 0]\<rparr>) =
     (Returned RNone,
      (init 0 1)\<lparr>to_destroy := [clip 0], next_oid := 2,
         trace := [Create (image 1), Sleep 2, WaitFor ''space'', Destroy (image 1)]\<rparr>) \<and>
   frame (Hybrid 2 ''space'') True ((init 0 1)\<lparr>to_destroy := [clip 0]\<rparr>) =
     (Returned RNone,
      (init 0 1)\<lparr>to_destroy := [clip 0], next_oid := 5,
         trace := [Create (image 1), Create (image 2), Create (image 3), Create (image 4),
                   Sleep 2, WaitFor ''space'',
                   Destroy (image 1), Destroy (image 2), Destroy (image 3),
                   Destroy (image 4)]\<rparr>) \<and>
   picture (Hybrid 2 ''space'') True (PTuple [0, 0]) PNone (PNum 1)
       ((init 0 1)\<lparr>to_destroy := [clip 0]\<rparr>) =
     (Returned RNone,
      (init 0 1)\<lparr>to_destroy := [clip 0], next_oid := 2,
         trace := [Create (image 1), Sleep 2, WaitFor ''space'', Destroy (image 1)]\<rparr>)"
proof -
  have f: "fresh ((init 0 1)\<lparr>to_destroy := [clip 0]\<rparr>)"
    by (simp add: fresh_def init_def)
  have g: "picture_geometry (PTuple [0, 0]) PNone (PNum 1) =
        Inr (PTuple [0, 0, 0], Plain PNone, PNum 1)"
    by (simp add: picture_geometry_def pair_to_triple_def is_number_def py_len_def items_def)
  show ?thesis
    using f g
      blocking_visual_factories [OF f, of "Hybrid 2 ''space''" "PTuple [0, 0]" PNone "PNum 1"
        "(PTuple [0, 0, 0], Plain PNone, PNum 1)"]
    by (simp add: is_zero_def init_def numeral_2_eq_2 numeral_3_eq_3 eval_nat_numeral)
qed

text \<open>
  C3: a duration of \<open>0\<close> is meant to make every visual factory non-blocking whatever
  \<open>block\<close> says, with nothing destroyed and nothing scheduled. \<open>write\<close> does so (as do
  \<open>rectangle\<close> and \<open>picture\<close>), but \<open>crosshair\<close> and \<open>frame\<close> never look at the
  duration: called with duration \<open>0\<close> and \<open>block\<close> true they sleep for \<open>0\<close> seconds,
  destroy their objects at once and return \<open>None\<close>.
\<close>

theorem zero_duration_crosshair_frame_block:
  "crosshair (Fixed 0) True (init 0 0) =
     (Returned RNone,
      (init 0 0)\<lparr>next_oid := 2,
         trace := [Create (image 0), Create (image 1), Sleep 0,
                   Destroy (image 0), Destroy (image 1)]\<rparr>) \<and>
   frame (Fixed 0) True (init 0 0) =
     (Returned RNone,
      (init 0 0)\<lparr>next_oid := 4,
         trace := [Create (image 0), Create (image 1), Create (image 2), Create (image 3),
                   Sleep 0,
                   Destroy (image 0), Destroy (image 1), Destroy (image 2),
                   Destroy (image 3)]\<rparr>) \<and>
   write_text (Fixed 0) True (init 0 0) =
     (Returned (RObj (image 0)),
      (init 0 0)\<lparr>to_destroy := [image 0], next_oid := 1, trace := [Create (image 0)]\<rparr>)"
proof -
  have f: "fresh (init 0 0)"
    by (simp add: fresh_def init_def)
  show ?thesis
    using crosshair_blocking [OF f, of "Fixed 0"] frame_blocking [OF f, of "Fixed 0"]
      write_text_nonblocking [of True 0 "init 0 0"]
    by (simp add: init_def eval_nat_numeral)
qed

section \<open>Claims about the destruction helper\<close>

text \<open>
  C4: for every first argument (one object or \<open>None\<close>, a list, a tuple, the tracked list
  itself) and every marker id, \<open>_destroy_object\<close> returns \<open>None\<close> and never raises. The
  body of the \<open>try\<close> block issues no warning of its own, so the call adds exactly one
  warning to those issued so far when the body raised, and none when it did not. Each
  kind of failure does occur and is caught: a string as id fails at the comparison with
  zero, before anything is destroyed; a first element whose \<open>destroy\<close> (or, lacking one,
  \<open>stop\<close>) raises fails after the marker was sent; a first element that is not on the
  tracked list fails at \<open>list.remove\<close>, after it was destroyed or stopped, or after it
  was taken off the argument list when it has neither method.
\<close>

theorem destroy_object_never_raises:
  "fst (destroy_object obj mid s) = Returned RNone \<and>
   warnings_of (trace (snd (destroy_object obj mid s))) =
     warnings_of (trace s) @
     (case fst (destroy_try (as_list obj) mid s) of
        None \<Rightarrow> []
      | Some e \<Rightarrow> [''Error in destryoing objects'']) \<and>
   fst (destroy_try (as_list obj) (IdStr x) s) = Some TypeError \<and>
   destroy_object obj (IdStr x) s =
     (Returned RNone, emit (Warn ''Error in destryoing objects'') s) \<and>
   (as_list obj = Own (Some ele # ys) \<and>
    (destroy_attr ele = Raising \<or> (destroy_attr ele = Missing \<and> stop_attr ele = Raising)) \<longrightarrow>
      fst (destroy_try (as_list obj) (IdInt n) s) = Some EngineError \<and>
      destroy_object obj (IdInt n) s =
        (Returned RNone,
         emit (Warn ''Error in destryoing objects'')
           (if 0 < n \<and> implicit_markers s then marker n s else s))) \<and>
   (as_list obj = Own (Some ele # ys) \<and> works ele \<and> ele \<notin> set (to_destroy s) \<longrightarrow>
      fst (destroy_try (as_list obj) (IdInt n) s) = Some ValueError \<and>
      destroy_object obj (IdInt n) s =
        (Returned RNone,
         emit (Warn ''Error in destryoing objects'')
           (emit (act ele) (if 0 < n \<and> implicit_markers s then marker n s else s)))) \<and>
   (as_list obj = Own (Some ele # ys) \<and> destroy_attr ele = Missing \<and>
    stop_attr ele = Missing \<and> ele \<notin> set (to_destroy s) \<longrightarrow>
      fst (destroy_try (as_list obj) (IdInt n) s) = Some ValueError \<and>
      destroy_object obj (IdInt n) s =
        (Returned RNone,
         emit (Warn ''Error in destryoing objects'')
           (if 0 < n \<and> implicit_markers s then marker n s else s)))"
proof -
  let ?w = "Warn ''Error in destryoing objects''"
  let ?s0 = "if 0 < n \<and> implicit_markers s then marker n s else s"
  have t: "to_destroy ?s0 = to_destroy s"
    by (simp add: marker_sel)
  have a: "fst (destroy_object obj mid s) = Returned RNone"
    by (rule destroy_object_returns)
  obtain r s' where d: "destroy_try (as_list obj) mid s = (r, s')"
    by (cases "destroy_try (as_list obj) mid s") auto
  from destroy_try_unchanged [OF d] have "warnings_of (trace s') = warnings_of (trace s)"
    by simp
  then have b: "warnings_of (trace (snd (destroy_object obj mid s))) =
     warnings_of (trace s) @
     (case fst (destroy_try (as_list obj) mid s) of
        None \<Rightarrow> []
      | Some e \<Rightarrow> [''Error in destryoing objects''])"
    by (simp add: destroy_object_def d emit_sel split: option.splits)
  have c: "fst (destroy_try (as_list obj) (IdStr x) s) = Some TypeError"
    "destroy_object obj (IdStr x) s = (Returned RNone, emit ?w s)"
    by (simp_all add: destroy_object_def destroy_try_def id_gt_zero_def)
  have l: "destroy_loop 0 (Own (Some ele # ys)) ?s0 =
      (case destroy_element ele (Own (Some ele # ys)) ?s0 of
         (Some e, obj1, s1) \<Rightarrow> (Some e, s1)
       | (None, obj1, s1) \<Rightarrow> destroy_loop (Suc 0) obj1 s1)"
    by (simp add: destroy_loop_Some)
  have e1: "fst (destroy_try (as_list obj) (IdInt n) s) = Some EngineError \<and>
      destroy_object obj (IdInt n) s = (Returned RNone, emit ?w ?s0)"
    if "as_list obj = Own (Some ele # ys)"
      "destroy_attr ele = Raising \<or> (destroy_attr ele = Missing \<and> stop_attr ele = Raising)"
    using that by (simp add: destroy_object_def destroy_try_loop l destroy_element_raises)
  have e2: "fst (destroy_try (as_list obj) (IdInt n) s) = Some ValueError \<and>
      destroy_object obj (IdInt n) s = (Returned RNone, emit ?w (emit (act ele) ?s0))"
    if "as_list obj = Own (Some ele # ys)" "works ele" "ele \<notin> set (to_destroy s)"
  proof -
    from that(3) t have "ele \<notin> set (to_destroy ?s0)"
      by simp
    with that(1,2) show ?thesis
      by (simp add: destroy_object_def destroy_try_loop l destroy_element_untracked)
  qed
  have e3: "fst (destroy_try (as_list obj) (IdInt n) s) = Some ValueError \<and>
      destroy_object obj (IdInt n) s = (Returned RNone, emit ?w ?s0)"
    if "as_list obj = Own (Some ele # ys)" "destroy_attr ele = Missing"
      "stop_attr ele = Missing" "ele \<notin> set (to_destroy s)"
  proof -
    from that(4) t have "ele \<notin> set (to_destroy ?s0)"
      by simp
    with that(1-3) show ?thesis
      by (simp add: destroy_object_def destroy_try_loop l destroy_element_plain_untracked)
  qed
  show ?thesis
    using a b c e1 e2 e3 by blast
qed

theorem destroy_object_never_raises_witness:
  "as_list (Single (Some (PyObj 0 Raising Missing))) = Own [Some (PyObj 0 Raising Missing)] \<and>
   destroy_attr (PyObj 0 Raising Missing) = Raising \<and>
   destroy_object (Single (Some (PyObj 0 Raising Missing))) (IdInt 255)
       ((init 0 1)\<lparr>implicit_markers := True, to_destroy := [PyObj 0 Raising Missing]\<rparr>) =
     (Returned RNone,
      (init 0 1)\<lparr>implicit_markers := True, to_destroy := [PyObj 0 Raising Missing],
         trace := [Marker 255, Warn ''Error in destryoing objects'']\<rparr>) \<and>
   as_list (ObjTuple [Some (image 0), Some (image 1)]) = Own [Some (image 0), Some (image 1)] \<and>
   works (image 0) \<and> image 0 \<notin> set (to_destroy (init 0 2)) \<and>
   destroy_object (ObjTuple [Some (image 0), Some (image 1)]) (IdInt (- 1)) (init 0 2) =
     (Returned RNone,
      (init 0 2)\<lparr>trace := [Destroy (image 0), Warn ''Error in destryoing objects'']\<rparr>) \<and>
   as_list (ObjList [Some (plain 0)]) = Own [Some (plain 0)] \<and>
   destroy_attr (plain 0) = Missing \<and> stop_attr (plain 0) = Missing \<and>
   plain 0 \<notin> set (to_destroy (init 0 1)) \<and>
   destroy_object (ObjList [Some (plain 0)]) (IdInt (- 1)) (init 0 1) =
     (Returned RNone, (init 0 1)\<lparr>trace := [Warn ''Error in destryoing objects'']\<rparr>) \<and>
   destroy_object (Single (Some (image 0))) (IdStr ''done'')
       ((init 0 1)\<lparr>to_destroy := [image 0]\<rparr>) =
     (Returned RNone,
      (init 0 1)\<lparr>to_destroy := [image 0],
         trace := [Warn ''Error in destryoing objects'']\<rparr>)"
  using
    destroy_object_never_raises [where obj = "Single (Some (PyObj 0 Raising Missing))"
      and mid = "IdInt 255" and n = 255 and ele = "PyObj 0 Raising Missing" and ys = "[]"
      and s = "(init 0 1)\<lparr>implicit_markers := True, to_destroy := [PyObj 0 Raising Missing]\<rparr>"]
    destroy_object_never_raises [where obj = "ObjTuple [Some (image 0), Some (image 1)]"
      and mid = "IdInt (- 1)" and n = "- 1" and ele = "image 0" and ys = "[Some (image 1)]"
      and s = "init 0 2"]
    destroy_object_never_raises [where obj = "ObjList [Some (plain 0)]"
      and mid = "IdInt (- 1)" and n = "- 1" and ele = "plain 0" and ys = "[]"
      and s = "init 0 1"]
    destroy_object_never_raises [where obj = "Single (Some (image 0))"
      and mid = "IdStr ''done''" and x = "''done''"
      and s = "(init 0 1)\<lparr>to_destroy := [image 0]\<rparr>"]
  by (simp add: works_def act_def init_def emit_def marker_def)

text \<open>
  C5: when \<open>_destroy_object\<close> completes without an internal failure every element it
  was given that is not \<open>None\<close> should be off the tracked list. An element with neither
  \<open>destroy\<close> nor \<open>stop\<close> is removed from the very list the loop iterates, so the loop
  steps over the element that follows it: given \<open>[a, b]\<close> with such an \<open>a\<close>, both
  tracked, the call ends without a warning, \<open>a\<close> is untracked, and \<open>b\<close> is neither
  destroyed nor untracked.
\<close>

theorem destroy_object_skips_after_plain_element:
  "destroy_object (ObjList [Some (plain 0), Some (image 1)]) (IdInt (- 1))
     ((init 0 2)\<lparr>to_destroy := [plain 0, image 1]\<rparr>) =
     (Returned RNone, (init 0 2)\<lparr>to_destroy := [image 1]\<rparr>)"
  by (simp add: step)

text \<open>
  C10: when destroying or removing the i-th element raises, the elements before it should
  have been destroyed and taken off the tracked list. The removal of an element with
  neither \<open>destroy\<close> nor \<open>stop\<close> from the list being iterated breaks this as well: given
  \<open>[a, b, c]\<close> with such an \<open>a\<close>, with \<open>a\<close> and \<open>b\<close> tracked and \<open>c\<close> not, the loop
  steps over \<open>b\<close>, destroys \<open>c\<close> and fails to remove it; the call ends with one warning,
  and \<open>b\<close>, which comes before the failing \<open>c\<close>, is neither destroyed nor untracked.
\<close>

theorem element_before_failure_left_alone:
  "fst (destroy_object (ObjList [Some (plain 0), Some (image 1), Some (image 2)]) (IdInt (- 1))
     ((init 0 3)\<lparr>to_destroy := [plain 0, image 1]\<rparr>)) = Returned RNone \<and>
   to_destroy (snd (destroy_object (ObjList [Some (plain 0), Some (image 1), Some (image 2)])
     (IdInt (- 1)) ((init 0 3)\<lparr>to_destroy := [plain 0, image 1]\<rparr>))) = [image 1] \<and>
   trace (snd (destroy_object (ObjList [Some (plain 0), Some (image 1), Some (image 2)])
     (IdInt (- 1)) ((init 0 3)\<lparr>to_destroy := [plain 0, image 1]\<rparr>))) =
     [Destroy (image 2), Warn ''Error in destryoing objects'']"
  by (simp add: step)

section \<open>Claims about picture\<close>

text \<open>
  C9: \<open>picture\<close> called with a single number for \<open>hpr\<close> while \<open>scale\<close> is not a number
  raises \<open>TypeError\<close>, and does so before any engine object is created: the state, and
  with it the trace, the next identity and the tracked list, is as before the call.
\<close>

theorem picture_scalar_hpr_raises:
  "\<not> is_number scale \<Longrightarrow>
   picture duration block pos (PNum r) scale s = (Raised TypeError, s)"
  by (cases scale)
    (simp_all add: picture_def picture_geometry_def pair_to_triple_def is_number_def py_len_def)

theorem picture_scalar_hpr_raises_witness:
  "\<not> is_number PNone \<and>
   picture (Fixed 1) True PNone (PNum 90) PNone (init 0 0) = (Raised TypeError, init 0 0)"
  using picture_scalar_hpr_raises [of PNone "Fixed 1" True PNone 90 "init 0 0"]
  by (simp add: is_number_def)

section \<open>Claims about the instance state\<close>

text \<open>
  C7, as the code has it: besides the tracked list \<open>_to_destroy\<close> the stimulus
  operations write one more instance field, \<open>audio3d\<close>, and only in one place:
  \<open>sound\<close> called with \<open>surround\<close> true while \<open>audio3d\<close> is still \<open>None\<close> stores a
  new 3D audio manager there. No factory and no call of \<open>_destroy_object\<close> changes
  \<open>_base\<close> or \<open>implicit_markers\<close>, whether it returns or raises.
\<close>

theorem instance_fields_written:
  "base (snd (write_text duration block s)) = base s \<and>
   implicit_markers (snd (write_text duration block s)) = implicit_markers s \<and>
   audio3d (snd (write_text duration block s)) = audio3d s \<and>
   base (snd (crosshair duration block s)) = base s \<and>
   implicit_markers (snd (crosshair duration block s)) = implicit_markers s \<and>
   audio3d (snd (crosshair duration block s)) = audio3d s \<and>
   base (snd (rectangle duration block s)) = base s \<and>
   implicit_markers (snd (rectangle duration block s)) = implicit_markers s \<and>
   audio3d (snd (rectangle duration block s)) = audio3d s \<and>
   base (snd (frame duration block s)) = base s \<and>
   implicit_markers (snd (frame duration block s)) = implicit_markers s \<and>
   audio3d (snd (frame duration block s)) = audio3d s \<and>
   base (snd (picture duration block pos hpr scale s)) = base s \<and>
   implicit_markers (snd (picture duration block pos hpr scale s)) = implicit_markers s \<and>
   audio3d (snd (picture duration block pos hpr scale s)) = audio3d s \<and>
   base (snd (sound file_length block playrate timeoffset looping loopcount surround s)) = base s \<and>
   implicit_markers (snd (sound file_length block playrate timeoffset looping loopcount surround s)) =
     implicit_markers s \<and>
   audio3d (snd (sound file_length block playrate timeoffset looping loopcount surround s)) =
     (if surround \<and> audio3d s = None then Some (PyObj (next_oid s) Missing Missing)
      else audio3d s) \<and>
   base (snd (movie a m s)) = base s \<and>
   implicit_markers (snd (movie a m s)) = implicit_markers s \<and>
   audio3d (snd (movie a m s)) = audio3d s \<and>
   base (snd (destroy_object obj mid s)) = base s \<and>
   implicit_markers (snd (destroy_object obj mid s)) = implicit_markers s \<and>
   audio3d (snd (destroy_object obj mid s)) = audio3d s"
  using write_text_fields [of duration block s] crosshair_fields [of duration block s]
    rectangle_fields [of duration block s] frame_fields [of duration block s]
    picture_fields [of duration block pos hpr scale s]
    sound_fields [of file_length block playrate timeoffset looping loopcount surround s]
    movie_fields [of a m s]
  by (simp add: destroy_object_unchanged)

text \<open>
  C7 as stated fails: on a new module, where \<open>audio3d\<close> is \<open>None\<close>, a call of
  \<open>sound\<close> with \<open>surround\<close> true leaves an audio manager in \<open>audio3d\<close>.
\<close>

theorem sound_surround_sets_audio3d:
  "audio3d (init 0 0) = None \<and>
   audio3d (snd (sound 2 False 1 0 False None True (init 0 0))) = Some (PyObj 0 Missing Missing)"
  using sound_fields [of 2 False 1 0 False None True "init 0 0"]
  by (simp add: init_def)

section \<open>Claims about the markers\<close>

text \<open>
  C8: while \<open>implicit_markers\<close> is false no factory call and no call of
  \<open>_destroy_object\<close> sends a marker, whether the call returns or raises; while it is
  true every factory call that returns has sent a marker, and \<open>_destroy_object\<close> sends
  one exactly when its id is positive.
\<close>

theorem markers_only_when_automatic:
  "(\<not> implicit_markers s \<longrightarrow>
      markers_of (trace (snd (write_text duration block s))) = markers_of (trace s) \<and>
      markers_of (trace (snd (crosshair duration block s))) = markers_of (trace s) \<and>
      markers_of (trace (snd (rectangle duration block s))) = markers_of (trace s) \<and>
      markers_of (trace (snd (frame duration block s))) = markers_of (trace s) \<and>
      markers_of (trace (snd (picture duration block pos hpr scale s))) = markers_of (trace s) \<and>
      markers_of (trace (snd (sound file_length block playrate timeoffset looping loopcount
        surround s))) = markers_of (trace s) \<and>
      markers_of (trace (snd (movie a m s))) = markers_of (trace s) \<and>
      markers_of (trace (snd (destroy_object obj mid s))) = markers_of (trace s)) \<and>
   (implicit_markers s \<longrightarrow>
      (fst (write_text duration block s) = Returned v1 \<longrightarrow>
         markers_of (trace (snd (write_text duration block s))) \<noteq> markers_of (trace s)) \<and>
      (fst (crosshair duration block s) = Returned v2 \<longrightarrow>
         markers_of (trace (snd (crosshair duration block s))) \<noteq> markers_of (trace s)) \<and>
      (fst (rectangle duration block s) = Returned v3 \<longrightarrow>
         markers_of (trace (snd (rectangle duration block s))) \<noteq> markers_of (trace s)) \<and>
      (fst (frame duration block s) = Returned v4 \<longrightarrow>
         markers_of (trace (snd (frame duration block s))) \<noteq> markers_of (trace s)) \<and>
      (fst (picture duration block pos hpr scale s) = Returned v5 \<longrightarrow>
         markers_of (trace (snd (picture duration block pos hpr scale s))) \<noteq>
         markers_of (trace s)) \<and>
      (fst (sound file_length block playrate timeoffset looping loopcount surround s) =
         Returned v6 \<longrightarrow>
         markers_of (trace (snd (sound file_length block playrate timeoffset looping loopcount
           surround s))) \<noteq> markers_of (trace s)) \<and>
      (fst (movie a m s) = Returned v7 \<longrightarrow>
         markers_of (trace (snd (movie a m s))) \<noteq> markers_of (trace s)) \<and>
      (markers_of (trace (snd (destroy_object obj (IdInt n) s))) \<noteq> markers_of (trace s)) =
        (0 < n))"
proof -
  obtain so s1 where ms: "movie_sound m s = (so, s1)"
    by (cases "movie_sound m s") auto
  have p: "fst (picture duration block pos hpr scale s) = Returned v5 \<Longrightarrow>
      \<exists>g. picture_geometry pos hpr scale = Inr g"
    by (cases "picture_geometry pos hpr scale") (auto simp: picture_def)
  have mv: "fst (movie a m s) = Returned v7 \<Longrightarrow>
      \<exists>len. movie_setup a m
        (case (so, sfx_length m) of (Some x, Some l) \<Rightarrow> l | _ \<Rightarrow> tex_time m) = Inr len"
    using ms
    by (cases "movie_setup a m
        (case (so, sfx_length m) of (Some x, Some l) \<Rightarrow> l | _ \<Rightarrow> tex_time m)")
      (simp_all add: movie_def split_beta Let_def)
  show ?thesis
    using p mv
    by (auto simp: write_text_markers crosshair_markers rectangle_markers frame_markers
        picture_markers sound_markers movie_markers [OF ms] destroy_object_unchanged
        split: sum.splits marker_id.splits)
qed

theorem markers_only_when_automatic_witness:
  "\<not> implicit_markers (init 0 0) \<and>
   markers_of (trace (snd (write_text (Fixed 1) True (init 0 0)))) = markers_of (trace (init 0 0)) \<and>
   markers_of (trace (snd (destroy_object (Single None) (IdInt 255) (init 0 0)))) =
     markers_of (trace (init 0 0)) \<and>
   implicit_markers demo_state \<and>
   fst (write_text (Fixed 1) True demo_state) = Returned RNone \<and>
   markers_of (trace (snd (write_text (Fixed 1) True demo_state))) \<noteq>
     markers_of (trace demo_state) \<and>
   fst (crosshair (Fixed 1) True demo_state) = Returned RNone \<and>
   markers_of (trace (snd (crosshair (Fixed 1) True demo_state))) \<noteq>
     markers_of (trace demo_state) \<and>
   fst (rectangle (Fixed 1) True demo_state) = Returned RNone \<and>
   markers_of (trace (snd (rectangle (Fixed 1) True demo_state))) \<noteq>
     markers_of (trace demo_state) \<and>
   fst (frame (Fixed 1) True demo_state) = Returned RNone \<and>
   markers_of (trace (snd (frame (Fixed 1) True demo_state))) \<noteq>
     markers_of (trace demo_state) \<and>
   fst (picture (Fixed 1) True PNone PNone PNone demo_state) = Returned RNone \<and>
   markers_of (trace (snd (picture (Fixed 1) True PNone PNone PNone demo_state))) \<noteq>
     markers_of (trace demo_state) \<and>
   fst (sound 2 True 1 0 False None False demo_state) = Returned RNone \<and>
   markers_of (trace (snd (sound 2 True 1 0 False None False demo_state))) \<noteq>
     markers_of (trace demo_state) \<and>
   fst (movie demo_args demo_media demo_state) = Returned RNone \<and>
   markers_of (trace (snd (movie demo_args demo_media demo_state))) \<noteq>
     markers_of (trace demo_state)"
proof -
  have a: "\<not> implicit_markers (init 0 0)" and b: "implicit_markers demo_state"
    by (simp_all add: init_def)
  have r: "fst (write_text (Fixed 1) True demo_state) = Returned RNone"
    "fst (crosshair (Fixed 1) True demo_state) = Returned RNone"
    "fst (rectangle (Fixed 1) True demo_state) = Returned RNone"
    "fst (frame (Fixed 1) True demo_state) = Returned RNone"
    "fst (picture (Fixed 1) True PNone PNone PNone demo_state) = Returned RNone"
    "fst (sound 2 True 1 0 False None False demo_state) = Returned RNone"
    "fst (movie demo_args demo_media demo_state) = Returned RNone"
    using demo_fresh
    by (simp_all add: write_text_blocking crosshair_blocking rectangle_blocking frame_blocking
        picture_blocking [OF _ _ demo_geometry] sound_blocking
        movie_blocking [OF _ _ demo_sound] demo_setup is_zero_def)
  show ?thesis
    using a b r
      markers_only_when_automatic [of "init 0 0" "Fixed 1" True PNone PNone PNone 2 1 0 False None
        False demo_args demo_media "Single None" "IdInt 255"]
      markers_only_when_automatic [of demo_state "Fixed 1" True PNone PNone PNone 2 1 0 False None
        False demo_args demo_media "Single None" "IdInt 255" RNone RNone RNone RNone RNone RNone
        RNone]
    by simp
qed

text \<open>
  C1, as the code has it: with \<open>implicit_markers\<close> true every factory sends its fixed
  onset code (\<open>write\<close> 254, \<open>crosshair\<close> 252, \<open>rectangle\<close> 250, \<open>frame\<close> 242,
  \<open>picture\<close> 248, \<open>sound\<close> 246, \<open>movie\<close> 244) right after creating its engine
  objects and before any wait, and the destruction the module performs sends the
  completion code, which is the onset code plus one (255, 253, 251, 243, 249, 247, 245):
  at once after the wait of a blocking call, and as the id of the task a non-blocking call
  schedules; a task run with a positive id sends that id. The statement is about calls
  that do not raise (\<open>picture\<close> and \<open>movie\<close> can raise over their geometry arguments
  before any marker).
\<close>

theorem onset_and_completion_codes:
  assumes "implicit_markers s" "fresh s"
  shows
   "(\<not> is_zero duration \<longrightarrow>
       trace (snd (write_text duration True s)) =
         trace s @ [Create (image (next_oid s)), Marker 254] @ waits duration @
         [Marker (254 + 1), Destroy (image (next_oid s))]) \<and>
    trace (snd (crosshair duration True s)) =
      trace s @ [Create (image (next_oid s)), Create (image (Suc (next_oid s))), Marker 252] @
      waits duration @
      [Marker (252 + 1), Destroy (image (next_oid s)), Destroy (image (Suc (next_oid s)))] \<and>
    (\<not> is_zero duration \<longrightarrow>
       trace (snd (rectangle duration True s)) =
         trace s @ [Create (image (next_oid s)), Marker 250] @ waits duration @
         [Marker (250 + 1), Destroy (image (next_oid s))]) \<and>
    trace (snd (frame duration True s)) =
      trace s @
      [Create (image (next_oid s)), Create (image (Suc (next_oid s))),
       Create (image (Suc (Suc (next_oid s)))), Create (image (Suc (Suc (Suc (next_oid s))))),
       Marker 242] @
      waits duration @
      [Marker (242 + 1), Destroy (image (next_oid s)), Destroy (image (Suc (next_oid s))),
       Destroy (image (Suc (Suc (next_oid s)))),
       Destroy (image (Suc (Suc (Suc (next_oid s)))))] \<and>
    (\<not> is_zero duration \<and> picture_geometry pos hpr scale = Inr g \<longrightarrow>
       trace (snd (picture duration True pos hpr scale s)) =
         trace s @ [Create (image (next_oid s)), Marker 248] @ waits duration @
         [Marker (248 + 1), Destroy (image (next_oid s))]) \<and>
    trace (snd (sound file_length True playrate timeoffset looping loopcount surround s)) =
      trace s @
      [Create (clip (next_oid (ensure_audio3d surround s))), Marker 246,
       Sleep (sound_length file_length playrate timeoffset looping loopcount),
       Marker (246 + 1), Stop (clip (next_oid (ensure_audio3d surround s)))] \<and>
    (m_block a \<and> movie_sound m s = (so, s1) \<and>
     movie_setup a m (case (so, sfx_length m) of (Some x, Some l) \<Rightarrow> l | _ \<Rightarrow> tex_time m) =
       Inr len \<longrightarrow>
       trace (snd (movie a m s)) =
         trace s1 @
         [Create (clip (next_oid s1)), Create (image (Suc (next_oid s1))), Marker 244,
          Sleep len, Marker (244 + 1), Destroy (image (Suc (next_oid s1)))]) \<and>
    trace (snd (write_text (Fixed d) False s)) =
      trace s @ [Create (image (next_oid s)), Marker 254] \<and>
    tasks (snd (write_text (Fixed d) False s)) =
      tasks s @
      (if 0 < d then [Task d (Single (Some (image (next_oid s)))) (IdInt (254 + 1))] else []) \<and>
    trace (snd (crosshair (Fixed d) False s)) =
      trace s @ [Create (image (next_oid s)), Create (image (Suc (next_oid s))), Marker 252] \<and>
    tasks (snd (crosshair (Fixed d) False s)) =
      tasks s @
      (if 0 < d
       then [Task d (ObjList [Some (image (next_oid s)), Some (image (Suc (next_oid s)))])
               (IdInt (252 + 1))]
       else []) \<and>
    trace (snd (rectangle (Fixed d) False s)) =
      trace s @ [Create (image (next_oid s)), Marker 250] \<and>
    tasks (snd (rectangle (Fixed d) False s)) =
      tasks s @
      (if 0 < d then [Task d (Single (Some (image (next_oid s)))) (IdInt (250 + 1))] else []) \<and>
    trace (snd (frame (Fixed d) False s)) =
      trace s @
      [Create (image (next_oid s)), Create (image (Suc (next_oid s))),
       Create (image (Suc (Suc (next_oid s)))), Create (image (Suc (Suc (Suc (next_oid s))))),
       Marker 242] \<and>
    tasks (snd (frame (Fixed d) False s)) =
      tasks s @
      (if 0 < d
       then [Task d (ObjList [Some (image (next_oid s)), Some (image (Suc (next_oid s))),
                              Some (image (Suc (Suc (next_oid s)))),
                              Some (image (Suc (Suc (Suc (next_oid s)))))])
               (IdInt (242 + 1))]
       else []) \<and>
    (picture_geometry pos hpr scale = Inr g \<longrightarrow>
       trace (snd (picture (Fixed d) False pos hpr scale s)) =
         trace s @ [Create (image (next_oid s)), Marker 248] \<and>
       tasks (snd (picture (Fixed d) False pos hpr scale s)) =
         tasks s @
         (if 0 < d then [Task d (Single (Some (image (next_oid s)))) (IdInt (248 + 1))]
          else [])) \<and>
    trace (snd (sound file_length False playrate timeoffset looping loopcount surround s)) =
      trace s @ [Create (clip (next_oid (ensure_audio3d surround s))), Marker 246] \<and>
    tasks (snd (sound file_length False playrate timeoffset looping loopcount surround s)) =
      tasks s @
      [Task (sound_length file_length playrate timeoffset looping loopcount) (Single None)
         (IdInt (246 + 1))] \<and>
    (\<not> m_block a \<and> movie_sound m s = (so, s1) \<and>
     movie_setup a m (case (so, sfx_length m) of (Some x, Some l) \<Rightarrow> l | _ \<Rightarrow> tex_time m) =
       Inr len \<longrightarrow>
       trace (snd (movie a m s)) =
         trace s1 @
         [Create (clip (next_oid s1)), Create (image (Suc (next_oid s1))), Marker 244] \<and>
       tasks (snd (movie a m s)) =
         tasks s @
         [Task len (ObjList [Some (image (Suc (next_oid s1))), Some (clip (next_oid s1)), so])
            (IdInt (244 + 1))]) \<and>
    (0 < k \<longrightarrow>
       markers_of (trace (snd (run_task (Task t obj (IdInt k)) s))) =
         markers_of (trace s) @ [k])"
proof -
  have 1: "\<not> is_zero duration \<Longrightarrow>
       trace (snd (write_text duration True s)) =
         trace s @ [Create (image (next_oid s)), Marker 254] @ waits duration @
         [Marker (254 + 1), Destroy (image (next_oid s))]"
    using assms by (simp add: write_text_blocking)
  have 2: "trace (snd (crosshair duration True s)) =
      trace s @ [Create (image (next_oid s)), Create (image (Suc (next_oid s))), Marker 252] @
      waits duration @
      [Marker (252 + 1), Destroy (image (next_oid s)), Destroy (image (Suc (next_oid s)))]"
    using assms by (simp add: crosshair_blocking)
  have 3: "\<not> is_zero duration \<Longrightarrow>
       trace (snd (rectangle duration True s)) =
         trace s @ [Create (image (next_oid s)), Marker 250] @ waits duration @
         [Marker (250 + 1), Destroy (image (next_oid s))]"
    using assms by (simp add: rectangle_blocking)
  have 4: "trace (snd (frame duration True s)) =
      trace s @
      [Create (image (next_oid s)), Create (image (Suc (next_oid s))),
       Create (image (Suc (Suc (next_oid s)))), Create (image (Suc (Suc (Suc (next_oid s))))),
       Marker 242] @
      waits duration @
      [Marker (242 + 1), Destroy (image (next_oid s)), Destroy (image (Suc (next_oid s))),
       Destroy (image (Suc (Suc (next_oid s)))),
       Destroy (image (Suc (Suc (Suc (next_oid s)))))]"
    using assms by (simp add: frame_blocking)
  have 5: "\<not> is_zero duration \<Longrightarrow> picture_geometry pos hpr scale = Inr g \<Longrightarrow>
       trace (snd (picture duration True pos hpr scale s)) =
         trace s @ [Create (image (next_oid s)), Marker 248] @ waits duration @
         [Marker (248 + 1), Destroy (image (next_oid s))]"
    using assms by (simp add: picture_blocking)
  have 6: "trace (snd (sound file_length True playrate timeoffset looping loopcount surround s)) =
      trace s @
      [Create (clip (next_oid (ensure_audio3d surround s))), Marker 246,
       Sleep (sound_length file_length playrate timeoffset looping loopcount),
       Marker (246 + 1), Stop (clip (next_oid (ensure_audio3d surround s)))]"
    using assms by (simp add: sound_blocking)
  have 7: "m_block a \<Longrightarrow> movie_sound m s = (so, s1) \<Longrightarrow>
     movie_setup a m (case (so, sfx_length m) of (Some x, Some l) \<Rightarrow> l | _ \<Rightarrow> tex_time m) =
       Inr len \<Longrightarrow>
       trace (snd (movie a m s)) =
         trace s1 @
         [Create (clip (next_oid s1)), Create (image (Suc (next_oid s1))), Marker 244,
          Sleep len, Marker (244 + 1), Destroy (image (Suc (next_oid s1)))]"
    using assms by (simp add: movie_blocking)
  have 8: "\<not> m_block a \<Longrightarrow> movie_sound m s = (so, s1) \<Longrightarrow>
     movie_setup a m (case (so, sfx_length m) of (Some x, Some l) \<Rightarrow> l | _ \<Rightarrow> tex_time m) =
       Inr len \<Longrightarrow>
       trace (snd (movie a m s)) =
         trace s1 @
         [Create (clip (next_oid s1)), Create (image (Suc (next_oid s1))), Marker 244] \<and>
       tasks (snd (movie a m s)) =
         tasks s @
         [Task len (ObjList [Some (image (Suc (next_oid s1))), Some (clip (next_oid s1)), so])
            (IdInt (244 + 1))]"
    using assms by (simp add: movie_nonblocking)
  have 9: "picture_geometry pos hpr scale = Inr g \<Longrightarrow>
       trace (snd (picture (Fixed d) False pos hpr scale s)) =
         trace s @ [Create (image (next_oid s)), Marker 248] \<and>
       tasks (snd (picture (Fixed d) False pos hpr scale s)) =
         tasks s @
         (if 0 < d then [Task d (Single (Some (image (next_oid s)))) (IdInt (248 + 1))]
          else [])"
    using assms by (simp add: picture_nonblocking)
  have 10: "0 < k \<Longrightarrow>
       markers_of (trace (snd (run_task (Task t obj (IdInt k)) s))) =
         markers_of (trace s) @ [k]"
    using assms by (simp add: run_task_def destroy_object_unchanged)
  show ?thesis
    using assms 1 2 3 4 5 6 7 8 9 10
    by (simp add: write_text_nonblocking crosshair_nonblocking rectangle_nonblocking
        frame_nonblocking sound_nonblocking)
qed

theorem onset_and_completion_codes_witness:
  "implicit_markers demo_state \<and> fresh demo_state \<and> \<not> is_zero (Fixed 1) \<and>
   picture_geometry PNone PNone PNone = Inr (PNone, Plain PNone, PNone) \<and>
   m_block demo_args \<and> \<not> m_block (demo_args\<lparr>m_block := False\<rparr>) \<and>
   movie_sound demo_media demo_state = (None, demo_state) \<and>
   movie_setup demo_args demo_media 10 = Inr 10 \<and>
   movie_setup (demo_args\<lparr>m_block := False\<rparr>) demo_media 10 = Inr 10 \<and>
   (0 :: int) < 255 \<and>
   trace (snd (write_text (Fixed 1) True demo_state)) =
     [Create (image 1), Marker 254, Sleep 1, Marker 255, Destroy (image 1)] \<and>
   trace (snd (picture (Fixed 1) True PNone PNone PNone demo_state)) =
     [Create (image 1), Marker 248, Sleep 1, Marker 249, Destroy (image 1)] \<and>
   trace (snd (picture (Fixed 1) False PNone PNone PNone demo_state)) =
     [Create (image 1), Marker 248] \<and>
   tasks (snd (picture (Fixed 1) False PNone PNone PNone demo_state)) =
     [Task 1 (Single (Some (image 1))) (IdInt 249)] \<and>
   trace (snd (movie demo_args demo_media demo_state)) =
     [Create (clip 1), Create (image 2), Marker 244, Sleep 10, Marker 245, Destroy (image 2)] \<and>
   tasks (snd (movie (demo_args\<lparr>m_block := False\<rparr>) demo_media demo_state)) =
     [Task 10 (ObjList [Some (image 2), Some (clip 1), None]) (IdInt 245)] \<and>
   markers_of (trace (snd (run_task (Task 10 (Single None) (IdInt 255)) demo_state))) = [255]"
proof -
  have b: "implicit_markers demo_state"
    by (simp add: init_def)
  note t = onset_and_completion_codes [OF b demo_fresh]
  have z: "\<not> is_zero (Fixed 1)"
    by (simp add: is_zero_def)
  show ?thesis
    using b demo_fresh z demo_geometry demo_sound [of demo_state] demo_setup
      demo_setup_nonblocking
      t [where duration = "Fixed 1" and pos = PNone and hpr = PNone and scale = PNone
          and g = "(PNone, Plain PNone, PNone)" and a = demo_args and m = demo_media
          and so = None and ?s1.0 = demo_state and len = 10 and d = 1 and k = 255 and t = 10
          and obj = "Single None"]
      t [where duration = "Fixed 1" and pos = PNone and hpr = PNone and scale = PNone
          and g = "(PNone, Plain PNone, PNone)" and a = "demo_args\<lparr>m_block := False\<rparr>"
          and m = demo_media and so = None and ?s1.0 = demo_state and len = 10 and d = 1
          and k = 255 and t = 10 and obj = "Single None"]
    by (simp add: init_def eval_nat_numeral)
qed

text \<open>
  C1 as stated fails: the completion code is not one less than the onset code. A blocking
  \<open>write\<close> sends 254 and then 255.
\<close>

theorem completion_code_not_one_less:
  "markers_of (trace (snd (write_text (Fixed 1) True demo_state))) = [254, 255] \<and>
   (255 :: int) \<noteq> 254 - 1"
  using write_text_markers [of "Fixed 1" True demo_state]
  by (simp add: init_def is_zero_def)

section \<open>Claims about cleanup\<close>

text \<open>
  C2: every handle a factory creates is meant to be destroyed and untracked on normal
  completion. Two branches do not do it. A non-blocking \<open>sound\<close> schedules
  \<open>_destroy_object\<close> with \<open>None\<close> in place of the sound, so running the task changes
  nothing and the sound stays tracked. A blocking \<open>movie\<close> destroys the image only, so
  the texture and the sound track stay tracked and are never stopped. The sibling
  branches (blocking \<open>sound\<close>, non-blocking \<open>movie\<close>) pass the created objects.
\<close>

theorem sound_and_movie_leave_handles_tracked:
  "sound 2 False 1 0 False None False (init 0 0) =
     (Returned (RObj (clip 0)),
      (init 0 0)\<lparr>to_destroy := [clip 0], next_oid := 1, trace := [Create (clip 0)],
         tasks := [Task 2 (Single None) (IdInt 247)]\<rparr>) \<and>
   run_task (Task 2 (Single None) (IdInt 247))
     ((init 0 0)\<lparr>to_destroy := [clip 0], next_oid := 1, trace := [Create (clip 0)],
         tasks := [Task 2 (Single None) (IdInt 247)]\<rparr>) =
     (Returned RNone,
      (init 0 0)\<lparr>to_destroy := [clip 0], next_oid := 1, trace := [Create (clip 0)],
         tasks := [Task 2 (Single None) (IdInt 247)]\<rparr>) \<and>
   movie demo_args (demo_media\<lparr>sfx_length := Some 10\<rparr>) (init 0 0) =
     (Returned RNone,
      (init 0 0)\<lparr>to_destroy := [clip 0, clip 1], next_oid := 3,
         trace := [Create (clip 0), Create (clip 1), Create (image 2), Sleep 10,
                   Destroy (image 2)]\<rparr>)"
proof -
  have f: "fresh (init 0 0)"
    by (simp add: fresh_def init_def)
  have s: "movie_sound (demo_media\<lparr>sfx_length := Some 10\<rparr>) (init 0 0) =
      (Some (clip 0),
       (init 0 0)\<lparr>to_destroy := [clip 0], next_oid := 1, trace := [Create (clip 0)]\<rparr>)"
    by (simp add: movie_sound_def loadSfx_def new_object_def emit_def track_def init_def Let_def)
  have u: "movie_setup demo_args (demo_media\<lparr>sfx_length := Some 10\<rparr>) 10 = Inr 10"
    by (simp add: movie_setup_def movie_length_def movie_aspect_def movie_contentscale_def
      movie_scale_def aug_item_def py_len_def movie_hpr_def items_def default_movie_args_def)
  have m: "m_block demo_args"
    by simp
  show ?thesis
    using movie_blocking [OF f m s] u
      sound_nonblocking [of 2 1 0 False None False "init 0 0"]
    by (simp add: init_def ensure_audio3d_def sound_length_def run_task_def
        destroy_object_works works_def act_def eval_nat_numeral)
qed

section \<open>Further properties\<close>

text \<open>
  X1: \<open>movie\<close> called with the default \<open>scale\<close> (\<open>None\<close>), or with a single number,
  never returns: the scale becomes the tuple \<open>(scale[0],1,scale[1])\<close> (line 391) and the
  next statement assigns to an item of it, which raises \<open>TypeError\<close>, unless a division
  by zero has raised before. The sound track and the texture loaded by then stay tracked.
\<close>

theorem movie_default_scale_raises:
  "m_scale a = PNone \<or> is_number (m_scale a) \<Longrightarrow>
   fst (movie a m s) = Raised TypeError \<or> fst (movie a m s) = Raised ZeroDivisionError"
proof -
  assume a: "m_scale a = PNone \<or> is_number (m_scale a)"
  let ?l0 = "case (fst (movie_sound m s), sfx_length m) of
      (Some x, Some l) \<Rightarrow> l | _ \<Rightarrow> tex_time m"
  from movie_setup_number [OF a, of m ?l0]
  show ?thesis
    by (auto simp: movie_def split_beta Let_def)
qed

theorem movie_default_scale_raises_witness:
  "m_scale default_movie_args = PNone \<and>
   movie default_movie_args demo_media (init 0 0) =
     (Raised TypeError,
      (init 0 0)\<lparr>to_destroy := [clip 0], next_oid := 1, trace := [Create (clip 0)]\<rparr>)"
proof -
  have a: "m_scale default_movie_args = PNone"
    by (simp add: default_movie_args_def)
  have "movie_setup default_movie_args demo_media 10 = Inl TypeError"
    by (simp add: movie_setup_def movie_length_def movie_aspect_def movie_contentscale_def
        movie_scale_def aug_item_def py_len_def items_def default_movie_args_def)
  then show ?thesis
    using a movie_default_scale_raises [of default_movie_args demo_media "init 0 0"]
    by (simp add: movie_def movie_sound_def loadTexture_def new_object_def emit_def track_def
        init_def Let_def)
qed

text \<open>
  X2: given anything but the tracked list itself, with elements that are \<open>None\<close> or
  objects whose \<open>destroy\<close> (or, lacking one, \<open>stop\<close>) works, all different and tracked,
  \<open>_destroy_object\<close> with a numeric id sends the marker when the id is positive and
  markers are automatic, destroys or stops each object in order, removes each from the
  tracked list, and issues no warning.
\<close>

theorem destroy_object_cleans_up:
  "obj \<noteq> TrackedList \<Longrightarrow> \<forall>x\<in>set (present (elements (as_list obj) s)). works x \<Longrightarrow>
   distinct (present (elements (as_list obj) s)) \<Longrightarrow>
   set (present (elements (as_list obj) s)) \<subseteq> set (to_destroy s) \<Longrightarrow>
   destroy_object obj (IdInt n) s =
     (Returned RNone,
      s\<lparr>to_destroy := fold remove1 (present (elements (as_list obj) s)) (to_destroy s),
        trace := trace s @ (if 0 < n \<and> implicit_markers s then [Marker n] else []) @
                 map act (present (elements (as_list obj) s))\<rparr>)"
  by (rule destroy_object_works)

theorem destroy_object_cleans_up_witness:
  "ObjTuple [Some (image 1), None, Some (clip 2)] \<noteq> TrackedList \<and>
   works (image 1) \<and> works (clip 2) \<and> distinct [image 1, clip 2] \<and>
   destroy_object (ObjTuple [Some (image 1), None, Some (clip 2)]) (IdInt 245)
       ((init 0 3)\<lparr>implicit_markers := True, to_destroy := [clip 0, image 1, clip 2]\<rparr>) =
     (Returned RNone,
      (init 0 3)\<lparr>implicit_markers := True, to_destroy := [clip 0],
         trace := [Marker 245, Destroy (image 1), Stop (clip 2)]\<rparr>)"
  using destroy_object_cleans_up [of "ObjTuple [Some (image 1), None, Some (clip 2)]"
      "(init 0 3)\<lparr>implicit_markers := True, to_destroy := [clip 0, image 1, clip 2]\<rparr>" 245]
  by (simp add: works_def act_def init_def)

text \<open>
  X3: \<open>_destroy_object\<close> is not atomic. Let the argument be a list other than the
  tracked list itself, and let the elements before the i-th each be \<open>None\<close> or an object
  whose \<open>destroy\<close> (or, lacking one, \<open>stop\<close>) works, all different and tracked. If
  destroying or stopping the i-th element raises, or removing it from the tracked list
  raises because it is not there, then the elements before it have been destroyed or
  stopped and untracked, in order; the i-th is destroyed or stopped only when it has a
  working method, and the tracked list loses nothing for it; the elements after it are not
  touched, whatever they are; and one warning is issued.
\<close>

theorem destroy_object_stops_at_failure:
  assumes "\<forall>y\<in>set (present xs). works y" "distinct (present xs)"
    "set (present xs) \<subseteq> set (to_destroy s)"
  shows
   "(destroy_attr x = Raising \<or> (destroy_attr x = Missing \<and> stop_attr x = Raising) \<longrightarrow>
       destroy_object (ObjList (xs @ Some x # ys)) (IdInt n) s =
         (Returned RNone,
          s\<lparr>to_destroy := fold remove1 (present xs) (to_destroy s),
            trace := trace s @ (if 0 < n \<and> implicit_markers s then [Marker n] else []) @
                     map act (present xs) @ [Warn ''Error in destryoing objects'']\<rparr>)) \<and>
    (works x \<and> x \<notin> set (fold remove1 (present xs) (to_destroy s)) \<longrightarrow>
       destroy_object (ObjList (xs @ Some x # ys)) (IdInt n) s =
         (Returned RNone,
          s\<lparr>to_destroy := fold remove1 (present xs) (to_destroy s),
            trace := trace s @ (if 0 < n \<and> implicit_markers s then [Marker n] else []) @
                     map act (present xs) @ [act x, Warn ''Error in destryoing objects'']\<rparr>)) \<and>
    (destroy_attr x = Missing \<and> stop_attr x = Missing \<and>
     x \<notin> set (fold remove1 (present xs) (to_destroy s)) \<longrightarrow>
       destroy_object (ObjList (xs @ Some x # ys)) (IdInt n) s =
         (Returned RNone,
          s\<lparr>to_destroy := fold remove1 (present xs) (to_destroy s),
            trace := trace s @ (if 0 < n \<and> implicit_markers s then [Marker n] else []) @
                     map act (present xs) @ [Warn ''Error in destryoing objects'']\<rparr>))"
proof -
  let ?s0 = "if 0 < n \<and> implicit_markers s then marker n s else s"
  have t: "to_destroy ?s0 = to_destroy s"
    by (simp add: marker_def emit_def)
  have c: "set (present xs) \<subseteq> set (to_destroy ?s0)"
    using assms(3) t by simp
  note r = destroy_loop_reaches [OF assms(1,2) c, of x ys]
  have 1: "destroy_attr x = Raising \<or> (destroy_attr x = Missing \<and> stop_attr x = Raising) \<Longrightarrow>
       destroy_object (ObjList (xs @ Some x # ys)) (IdInt n) s =
         (Returned RNone,
          s\<lparr>to_destroy := fold remove1 (present xs) (to_destroy s),
            trace := trace s @ (if 0 < n \<and> implicit_markers s then [Marker n] else []) @
                     map act (present xs) @ [Warn ''Error in destryoing objects'']\<rparr>)"
    by (simp add: destroy_object_def destroy_try_loop r destroy_element_raises t)
      (simp add: marker_def emit_def)
  have 2: "works x \<Longrightarrow> x \<notin> set (fold remove1 (present xs) (to_destroy s)) \<Longrightarrow>
       destroy_object (ObjList (xs @ Some x # ys)) (IdInt n) s =
         (Returned RNone,
          s\<lparr>to_destroy := fold remove1 (present xs) (to_destroy s),
            trace := trace s @ (if 0 < n \<and> implicit_markers s then [Marker n] else []) @
                     map act (present xs) @ [act x, Warn ''Error in destryoing objects'']\<rparr>)"
    by (simp add: destroy_object_def destroy_try_loop r destroy_element_untracked t)
      (simp add: marker_def emit_def)
  have 3: "destroy_attr x = Missing \<Longrightarrow> stop_attr x = Missing \<Longrightarrow>
       x \<notin> set (fold remove1 (present xs) (to_destroy s)) \<Longrightarrow>
       destroy_object (ObjList (xs @ Some x # ys)) (IdInt n) s =
         (Returned RNone,
          s\<lparr>to_destroy := fold remove1 (present xs) (to_destroy s),
            trace := trace s @ (if 0 < n \<and> implicit_markers s then [Marker n] else []) @
                     map act (present xs) @ [Warn ''Error in destryoing objects'']\<rparr>)"
    by (simp add: destroy_object_def destroy_try_loop r destroy_element_plain_untracked t)
      (simp add: marker_def emit_def)
  show ?thesis
    using 1 2 3 by blast
qed

theorem destroy_object_stops_at_failure_witness:
  "works (image 0) \<and> works (clip 1) \<and>
   distinct (present [Some (image 0), None, Some (clip 1)]) \<and>
   set (present [Some (image 0), None, Some (clip 1)]) \<subseteq>
     set (to_destroy ((init 0 4)\<lparr>to_destroy := [image 0, clip 1, image 3]\<rparr>)) \<and>
   works (image 2) \<and>
   image 2 \<notin> set (fold remove1 (present [Some (image 0), None, Some (clip 1)])
     (to_destroy ((init 0 4)\<lparr>to_destroy := [image 0, clip 1, image 3]\<rparr>))) \<and>
   destroy_object (ObjList ([Some (image 0), None, Some (clip 1)] @ Some (image 2) # [Some (image 3)]))
       (IdInt (- 1)) ((init 0 4)\<lparr>to_destroy := [image 0, clip 1, image 3]\<rparr>) =
     (Returned RNone,
      (init 0 4)\<lparr>to_destroy := [image 3],
         trace := [Destroy (image 0), Stop (clip 1), Destroy (image 2),
                   Warn ''Error in destryoing objects'']\<rparr>) \<and>
   destroy_attr (PyObj 2 Raising Missing) = Raising \<and>
   destroy_object
       (ObjList ([Some (image 0), None, Some (clip 1)] @ Some (PyObj 2 Raising Missing) #
          [Some (image 3)]))
       (IdInt (- 1)) ((init 0 4)\<lparr>to_destroy := [image 0, clip 1, image 3]\<rparr>) =
     (Returned RNone,
      (init 0 4)\<lparr>to_destroy := [image 3],
         trace := [Destroy (image 0), Stop (clip 1), Warn ''Error in destryoing objects'']\<rparr>) \<and>
   destroy_attr (plain 2) = Missing \<and> stop_attr (plain 2) = Missing \<and>
   plain 2 \<notin> set (fold remove1 (present [Some (image 0), None, Some (clip 1)])
     (to_destroy ((init 0 4)\<lparr>to_destroy := [image 0, clip 1, image 3]\<rparr>))) \<and>
   destroy_object
       (ObjList ([Some (image 0), None, Some (clip 1)] @ Some (plain 2) # [Some (image 3)]))
       (IdInt (- 1)) ((init 0 4)\<lparr>to_destroy := [image 0, clip 1, image 3]\<rparr>) =
     (Returned RNone,
      (init 0 4)\<lparr>to_destroy := [image 3],
         trace := [Destroy (image 0), Stop (clip 1), Warn ''Error in destryoing objects'']\<rparr>)"
proof -
  let ?xs = "[Some (image 0), None, Some (clip 1)]"
  let ?s = "(init 0 4)\<lparr>to_destroy := [image 0, clip 1, image 3]\<rparr>"
  have a: "\<forall>y\<in>set (present ?xs). works y"
    by (simp add: works_def)
  have b: "distinct (present ?xs)"
    by simp
  have c: "set (present ?xs) \<subseteq> set (to_destroy ?s)"
    by simp
  have d: "works (image 2)" "image 2 \<notin> set (fold remove1 (present ?xs) (to_destroy ?s))"
    by (simp_all add: works_def)
  show ?thesis
    using a b c d
      destroy_object_stops_at_failure [OF a b c, of "image 2" "[Some (image 3)]" "- 1"]
      destroy_object_stops_at_failure [OF a b c, of "PyObj 2 Raising Missing"
        "[Some (image 3)]" "- 1"]
      destroy_object_stops_at_failure [OF a b c, of "plain 2" "[Some (image 3)]" "- 1"]
    by (simp add: works_def act_def init_def)
qed

text \<open>
  X4: handed the tracked list itself, \<open>_destroy_object\<close> shortens the list it iterates
  each time it untracks an element, so it steps over every second one: with four images
  tracked, the first and the third are destroyed and untracked, the second and the fourth
  are left as they are, and no warning is issued.
\<close>

theorem destroy_object_tracked_list_skips:
  "destroy_object TrackedList (IdInt (- 1))
     ((init 0 4)\<lparr>to_destroy := [image 0, image 1, image 2, image 3]\<rparr>) =
     (Returned RNone,
      (init 0 4)\<lparr>to_destroy := [image 1, image 3],
         trace := [Destroy (image 0), Destroy (image 2)]\<rparr>)"
  by (simp add: step)

end
